theory Spec2Isabelle
  imports Complex_Main "HOL-Library.Sublist"
begin

section \<open>Python exceptions and floating-point results\<close>

text \<open>
  The two notebooks are straight-line Python. An exception raised by a statement is a value
  of \<open>py_error\<close>; a statement that can raise returns \<open>py_error + 'a\<close> with \<open>Inl\<close> for the
  exception. \<open>LibraryError\<close> stands for an exception that an external library raises for a
  reason outside the script (network, memory, a missing file).
\<close>

datatype py_error =
    ValueError string
  | KeyError string
  | TypeError string
  | RuntimeError string
  | NameError string
  | LibraryError string

text \<open>
  Metric values are Python floats. They are modelled as exact rationals, with \<open>NaN\<close> for
  the not-a-number that numpy returns for the mean of an empty array. Rounding to
  double precision is not modelled: \<open>Float q\<close> stands for the double nearest to \<open>q\<close>.
\<close>

datatype py_float = NaN | Float rat

section \<open>numpy: argmax over axis 1 and the mean of a boolean array\<close>

text \<open>
  \<open>np.argmax\<close> returns the index of the first maximal entry and raises \<open>ValueError\<close> on an
  empty sequence. A two-dimensional array is the list of its rows; logits are rationals
  (no NaN or infinity among them).
\<close>

fun argmax_from :: "rat \<Rightarrow> nat \<Rightarrow> nat \<Rightarrow> rat list \<Rightarrow> nat" where
  "argmax_from best bi i [] = bi"
| "argmax_from best bi i (x # xs) =
     (if best < x then argmax_from x i (Suc i) xs else argmax_from best bi (Suc i) xs)"

definition argmax :: "rat list \<Rightarrow> py_error + nat" where
  "argmax row =
     (case row of
        [] \<Rightarrow> Inl (ValueError ''attempt to get argmax of an empty sequence'')
      | x # xs \<Rightarrow> Inr (argmax_from x 0 1 xs))"

fun argmax_axis1 :: "rat list list \<Rightarrow> py_error + nat list" where
  "argmax_axis1 [] = Inr []"
| "argmax_axis1 (row # rest) =
     (case argmax row of
        Inl e \<Rightarrow> Inl e
      | Inr p \<Rightarrow> (case argmax_axis1 rest of Inl e \<Rightarrow> Inl e | Inr ps \<Rightarrow> Inr (p # ps)))"

text \<open>\<open>(predictions == labels).mean()\<close>: the share of \<open>True\<close> entries, NaN for no entries.\<close>

definition mean_bool :: "bool list \<Rightarrow> py_float" where
  "mean_bool bs =
     (if bs = [] then NaN
      else Float (rat_of_nat (length (filter id bs)) / rat_of_nat (length bs)))"

section \<open>scikit-learn: macro precision, recall and F1 with \<open>zero_division=0\<close>\<close>

text \<open>
  \<open>precision_recall_fscore_support(labels, predictions, average="macro", zero_division=0)\<close>
  as the library documents it: the classes are the sorted distinct values of both arrays;
  per class, precision is \<open>tp / predicted\<close>, recall is \<open>tp / actual\<close> and F1 is
  \<open>2 tp / (predicted + actual)\<close>, each taken as 0 where the denominator is 0; the macro
  value is the unweighted mean over the classes. Arrays of different length are refused
  with \<open>ValueError\<close>.
\<close>

definition prf_divide :: "nat \<Rightarrow> nat \<Rightarrow> rat" where
  "prf_divide numerator denominator =
     (if denominator = 0 then 0 else rat_of_nat numerator / rat_of_nat denominator)"

definition unique_labels :: "int list \<Rightarrow> int list \<Rightarrow> int list" where
  "unique_labels y_true y_pred = sort (remdups (y_true @ y_pred))"

definition tp_sum :: "int \<Rightarrow> int list \<Rightarrow> int list \<Rightarrow> nat" where
  "tp_sum l y_true y_pred = length (filter (\<lambda>(t, p). t = l \<and> p = l) (zip y_true y_pred))"

definition class_precision :: "int list \<Rightarrow> int list \<Rightarrow> int \<Rightarrow> rat" where
  "class_precision y_true y_pred l = prf_divide (tp_sum l y_true y_pred) (count_list y_pred l)"

definition class_recall :: "int list \<Rightarrow> int list \<Rightarrow> int \<Rightarrow> rat" where
  "class_recall y_true y_pred l = prf_divide (tp_sum l y_true y_pred) (count_list y_true l)"

definition class_f1 :: "int list \<Rightarrow> int list \<Rightarrow> int \<Rightarrow> rat" where
  "class_f1 y_true y_pred l =
     prf_divide (2 * tp_sum l y_true y_pred) (count_list y_true l + count_list y_pred l)"

definition nanaverage :: "rat list \<Rightarrow> py_float" where
  "nanaverage xs = (if xs = [] then NaN else Float (sum_list xs / rat_of_nat (length xs)))"

definition precision_recall_fscore_support ::
  "int list \<Rightarrow> int list \<Rightarrow> py_error + (py_float \<times> py_float \<times> py_float)" where
  "precision_recall_fscore_support y_true y_pred =
     (if length y_true \<noteq> length y_pred
      then Inl (ValueError ''Found input variables with inconsistent numbers of samples'')
      else
        let labels = unique_labels y_true y_pred
        in Inr (nanaverage (map (class_precision y_true y_pred) labels),
                nanaverage (map (class_recall y_true y_pred) labels),
                nanaverage (map (class_f1 y_true y_pred) labels)))"

section \<open>\<open>compute_metrics\<close> of the political-tweets notebook\<close>

text \<open>
  \<^verbatim>\<open>
  def compute_metrics(p):
      predictions = np.argmax(p.predictions, axis=1)
      labels = p.label_ids
      precision, recall, f1, _ = precision_recall_fscore_support(
          labels, predictions, average="macro", zero_division=0)
      accuracy = (predictions == labels).mean()
      return {"accuracy": accuracy, "macro_precision": precision,
              "macro_recall": recall, "macro_f1": f1}
  \<close>
\<close>

record metrics =
  accuracy :: py_float
  macro_precision :: py_float
  macro_recall :: py_float
  macro_f1 :: py_float

definition compute_metrics :: "rat list list \<Rightarrow> int list \<Rightarrow> py_error + metrics" where
  "compute_metrics p_predictions p_label_ids =
     (case argmax_axis1 p_predictions of
        Inl e \<Rightarrow> Inl e
      | Inr am \<Rightarrow>
          let predictions = map int am; labels = p_label_ids in
          (case precision_recall_fscore_support labels predictions of
             Inl e \<Rightarrow> Inl e
           | Inr (precision, recall, f1) \<Rightarrow>
               Inr \<lparr>accuracy = mean_bool (map2 (=) predictions labels),
                    macro_precision = precision,
                    macro_recall = recall,
                    macro_f1 = f1\<rparr>))"

section \<open>Datasets\<close>

text \<open>
  A dataset of the \<open>datasets\<close> library is a table: its column names and its rows, a row
  being the Python dict that indexing the dataset returns (an association list from
  column name to value). A value is a text, an integer, a list of token ids, or null; a
  column that a row does not hold reads as null.
\<close>

datatype cell = Null | Text string | Integer int | Tokens "nat list"

type_synonym row = "(string \<times> cell) list"

record hf_dataset =
  column_names :: "string list"
  rows :: "row list"

definition cell_of :: "row \<Rightarrow> string \<Rightarrow> cell" where
  "cell_of rw c = (case map_of rw c of None \<Rightarrow> Null | Some v \<Rightarrow> v)"

text \<open>\<open>batch[c]\<close> on a batch of rows: the column's values, \<open>KeyError\<close> for no such column.\<close>

definition batch_column :: "string list \<Rightarrow> row list \<Rightarrow> string \<Rightarrow> py_error + cell list" where
  "batch_column cols batch c =
     (if c \<in> set cols then Inr (map (\<lambda>rw. cell_of rw c) batch) else Inl (KeyError c))"

text \<open>\<open>dataset[i][c]\<close>: the row as a dict, then the key.\<close>

definition row_item :: "hf_dataset \<Rightarrow> nat \<Rightarrow> string \<Rightarrow> py_error + cell" where
  "row_item ds i c =
     (if length (rows ds) \<le> i then Inl (LibraryError ''IndexError'')
      else if c \<in> set (column_names ds) then Inr (cell_of (rows ds ! i) c)
      else Inl (KeyError c))"

subsection \<open>\<open>train_test_split\<close>\<close>

text \<open>
  \<open>Dataset.train_test_split(test_size=t, seed=s)\<close> with a float \<open>t\<close> and no
  \<open>train_size\<close>, as the library computes it: \<open>n_test = ceil(t * n)\<close>,
  \<open>n_train = n - n_test\<close>, \<open>ValueError\<close> when the train set would be empty; the rows are
  shuffled by a permutation drawn from a generator that is seeded with \<open>s\<close>, or with
  operating-system entropy when no seed is given; the first \<open>n_test\<close> shuffled rows are
  the test split and the next \<open>n_train\<close> the train split.

  The generator is a parameter: \<open>permutation g seed n\<close> is what
  \<open>numpy.random.default_rng(seed).permutation(n)\<close> returns, \<open>entropy g\<close> is the seed
  numpy would draw from the operating system. \<open>test_size\<close> is an exact rational; for
  \<open>0.2\<close> the double product \<open>0.2 * n\<close> rounds to a value with the same ceiling as
  \<open>n / 5\<close> for every \<open>n\<close> below \<open>2 ^ 50\<close>.
\<close>

record generator =
  permutation :: "nat \<Rightarrow> nat \<Rightarrow> nat list"
  entropy :: nat

definition select :: "hf_dataset \<Rightarrow> nat list \<Rightarrow> hf_dataset" where
  \<comment> \<open>the rows at the given indices, in that order; numpy's permutation of \<open>n\<close> holds
      no index outside \<open>0..<n\<close>, and one that did is skipped here\<close>
  "select ds indices =
     ds\<lparr>rows := map (\<lambda>i. rows ds ! i) (filter (\<lambda>i. i < length (rows ds)) indices)\<rparr>"

definition n_test_of :: "rat \<Rightarrow> nat \<Rightarrow> nat" where
  "n_test_of test_size n_samples = nat \<lceil>test_size * rat_of_nat n_samples\<rceil>"

record dataset_dict =
  train :: hf_dataset
  test :: hf_dataset

definition train_test_split ::
  "generator \<Rightarrow> rat \<Rightarrow> nat option \<Rightarrow> hf_dataset \<Rightarrow> py_error + dataset_dict" where
  "train_test_split g test_size seed ds =
     (let n_samples = length (rows ds);
          n_test = n_test_of test_size n_samples;
          n_train = n_samples - n_test
      in if n_train = 0
         then Inl (ValueError ''the resulting train set will be empty'')
         else
           let perm = permutation g (case seed of None \<Rightarrow> entropy g | Some s \<Rightarrow> s) n_samples
           in Inr \<lparr>train = select ds (take n_train (drop n_test perm)),
                   test = select ds (take n_test perm)\<rparr>)"

section \<open>Tokenization and padding\<close>

text \<open>
  A pretrained tokenizer, as far as the scripts use it: \<open>encode\<close> gives the subword ids
  of a text without special tokens; a call wraps them in the classifier and separator
  tokens. With \<open>truncation=True\<close> the text's ids are cut so that the whole sequence has
  at most \<open>max_length\<close> tokens, \<open>max_length\<close> defaulting to the tokenizer's
  \<open>model_max_length\<close>. No \<open>padding\<close> argument is passed by either script, so a call pads
  nothing and every attention-mask entry is 1.
\<close>

record hf_tokenizer =
  encode :: "string \<Rightarrow> nat list"
  cls_token_id :: nat
  sep_token_id :: nat
  pad_token_id :: nat
  model_max_length :: nat

record encoding =
  input_ids :: "nat list"
  attention_mask :: "nat list"

definition tokenizer_call :: "hf_tokenizer \<Rightarrow> bool \<Rightarrow> nat option \<Rightarrow> string \<Rightarrow> encoding" where
  "tokenizer_call tk truncation max_length txt =
     (let limit = (case max_length of None \<Rightarrow> model_max_length tk | Some m \<Rightarrow> m);
          body = (if truncation then take (limit - 2) (encode tk txt) else encode tk txt);
          ids = cls_token_id tk # body @ [sep_token_id tk]
      in \<lparr>input_ids = ids, attention_mask = replicate (length ids) 1\<rparr>)"

text \<open>A call on a batch: every entry must be a text.\<close>

fun tokenizer_batch ::
  "hf_tokenizer \<Rightarrow> bool \<Rightarrow> nat option \<Rightarrow> cell list \<Rightarrow> py_error + encoding list" where
  "tokenizer_batch tk truncation max_length [] = Inr []"
| "tokenizer_batch tk truncation max_length (Text txt # rest) =
     (case tokenizer_batch tk truncation max_length rest of
        Inl e \<Rightarrow> Inl e
      | Inr encs \<Rightarrow> Inr (tokenizer_call tk truncation max_length txt # encs))"
| "tokenizer_batch tk truncation max_length (c # rest) =
     Inl (ValueError ''text input must be of type str'')"

text \<open>
  The political-tweets notebook:
  \<^verbatim>\<open>
  def tokenize_function(examples):
      return tokenizer(examples["text"], truncation=True, max_length=128)
  \<close>
  The SMS notebook maps \<^verbatim>\<open>lambda x: tokenizer(x["sms"], truncation=True)\<close>.
\<close>

definition tokenize_function ::
  "hf_tokenizer \<Rightarrow> string list \<Rightarrow> row list \<Rightarrow> py_error + encoding list" where
  "tokenize_function tokenizer cols examples =
     (case batch_column cols examples ''text'' of
        Inl e \<Rightarrow> Inl e
      | Inr texts \<Rightarrow> tokenizer_batch tokenizer True (Some 128) texts)"

definition sms_tokenize_lambda ::
  "hf_tokenizer \<Rightarrow> string list \<Rightarrow> row list \<Rightarrow> py_error + encoding list" where
  "sms_tokenize_lambda tokenizer cols x =
     (case batch_column cols x ''sms'' of
        Inl e \<Rightarrow> Inl e
      | Inr texts \<Rightarrow> tokenizer_batch tokenizer True None texts)"

subsection \<open>\<open>Dataset.map(function, batched=True, remove_columns=...)\<close>\<close>

text \<open>
  The library first checks that every column to remove exists (\<open>ValueError\<close> otherwise),
  then applies the function to the rows in batches, adds the columns it returns and
  drops the removed ones. On an empty dataset the function is not called.
\<close>

definition add_encoding :: "string list \<Rightarrow> row \<Rightarrow> encoding \<Rightarrow> row" where
  "add_encoding removed rw enc =
     filter (\<lambda>(c, v). c \<notin> set removed \<and> c \<noteq> ''input_ids'' \<and> c \<noteq> ''attention_mask'') rw
       @ [(''input_ids'', Tokens (input_ids enc)),
          (''attention_mask'', Tokens (attention_mask enc))]"

definition dataset_map ::
  "(string list \<Rightarrow> row list \<Rightarrow> py_error + encoding list) \<Rightarrow> string list \<Rightarrow> hf_dataset
     \<Rightarrow> py_error + hf_dataset" where
  "dataset_map function remove_columns ds =
     (if filter (\<lambda>c. c \<notin> set (column_names ds)) remove_columns \<noteq> []
      then Inl (ValueError ''Column to remove not in the dataset'')
      else if rows ds = []
      then Inr (ds\<lparr>column_names := filter (\<lambda>c. c \<notin> set remove_columns) (column_names ds)\<rparr>)
      else
        (case function (column_names ds) (rows ds) of
           Inl e \<Rightarrow> Inl e
         | Inr encs \<Rightarrow>
             Inr \<lparr>column_names =
                    filter (\<lambda>c. c \<notin> set remove_columns \<and> c \<noteq> ''input_ids''
                                  \<and> c \<noteq> ''attention_mask'') (column_names ds)
                      @ [''input_ids'', ''attention_mask''],
                  rows = map2 (add_encoding remove_columns) (rows ds) encs\<rparr>))"

definition dataset_dict_map ::
  "(string list \<Rightarrow> row list \<Rightarrow> py_error + encoding list) \<Rightarrow> string list \<Rightarrow> dataset_dict
     \<Rightarrow> py_error + dataset_dict" where
  "dataset_dict_map function remove_columns dd =
     (case dataset_map function remove_columns (train dd) of
        Inl e \<Rightarrow> Inl e
      | Inr tr \<Rightarrow>
          (case dataset_map function remove_columns (test dd) of
             Inl e \<Rightarrow> Inl e
           | Inr te \<Rightarrow> Inr \<lparr>train = tr, test = te\<rparr>))"

subsection \<open>\<open>DataCollatorWithPadding\<close>\<close>




section \<open>Models, adapters and evaluation\<close>

text \<open>
  A sequence classifier as the scripts see it: the checkpoint it was loaded from, the
  configuration the script passes (\<open>num_labels\<close>, \<open>id2label\<close>), the adapter configuration
  once one is attached, and \<open>forward\<close>, the logits it returns for one tokenized example.
  The numbers inside \<open>forward\<close> belong to the framework and are not modelled.
\<close>

record model_config =
  num_labels :: nat
  id2label :: "(int \<times> string) list"

record peft_lora_config =
  lora_r :: nat
  lora_alpha :: nat
  target_modules :: "string list option"
  lora_dropout :: rat
  bias :: string
  task_type :: "string option"
  modules_to_save :: "string list option"
  use_dora :: bool

record hf_model =
  checkpoint :: string
  config :: model_config
  forward :: "row \<Rightarrow> rat list"
  peft_config :: "peft_lora_config option"

text \<open>
  \<open>get_peft_model\<close>, from the traceback that the SMS notebook records
  (\<open>LoraModel._prepare_adapter_config\<close>): with \<open>target_modules\<close> None, PEFT looks the
  model type up in its table of default target modules and raises \<open>ValueError\<close> when the
  table has no entry. The table is a parameter: \<open>defaults c\<close> is its entry for the
  architecture of checkpoint \<open>c\<close>.
\<close>

definition prepare_adapter_config ::
  "(string \<Rightarrow> string list option) \<Rightarrow> string \<Rightarrow> peft_lora_config \<Rightarrow> py_error + peft_lora_config" where
  "prepare_adapter_config defaults c cfg =
     (case target_modules cfg of
        Some ms \<Rightarrow> Inr cfg
      | None \<Rightarrow>
          (case defaults c of
             None \<Rightarrow> Inl (ValueError ''Please specify `target_modules` in `peft_config`'')
           | Some ms \<Rightarrow> Inr (cfg\<lparr>target_modules := Some ms\<rparr>)))"

definition get_peft_model ::
  "(string \<Rightarrow> string list option) \<Rightarrow> hf_model \<Rightarrow> peft_lora_config \<Rightarrow> py_error + hf_model" where
  "get_peft_model defaults m cfg =
     (case prepare_adapter_config defaults (checkpoint m) cfg of
        Inl e \<Rightarrow> Inl e
      | Inr cfg' \<Rightarrow> Inr (m\<lparr>peft_config := Some cfg'\<rparr>))"

subsection \<open>\<open>Trainer.predict\<close>\<close>

text \<open>
  \<open>predictions\<close> holds one row of logits per example; \<open>label_ids\<close> holds the examples'
  \<open>label\<close> column, and is None when an example has no integer label.
\<close>

record prediction_output =
  predictions :: "rat list list"
  label_ids :: "int list option"

definition label_of :: "row \<Rightarrow> int option" where
  "label_of rw = (case cell_of rw ''label'' of Integer l \<Rightarrow> Some l | _ \<Rightarrow> None)"

definition trainer_predict :: "hf_model \<Rightarrow> hf_dataset \<Rightarrow> prediction_output" where
  "trainer_predict m ds =
     \<lparr>predictions = map (forward m) (rows ds), label_ids = those (map label_of (rows ds))\<rparr>"

subsection \<open>\<open>evaluate_model\<close> of the political-tweets notebook\<close>

text \<open>
  \<^verbatim>\<open>
  def evaluate_model(model, dataset_split, split_name="Test"):
      ...
      outputs = trainer.predict(dataset_split)
      predictions = np.argmax(outputs.predictions, axis=1)
      labels = outputs.label_ids
      print(classification_report(labels, predictions,
                                  target_names=["Republican", "Democrat"]))
      plot_confusion_matrix(labels, predictions)
  \<close>
  \<open>classification_report\<close> refuses target names whose number differs from the number
  of classes present; its per-class lines use the same counts as the macro metrics.
\<close>

record report_line =
  class_name :: string
  precision :: rat
  recall :: rat
  f1_score :: rat
  support :: nat

definition classification_report ::
  "int list \<Rightarrow> int list \<Rightarrow> string list \<Rightarrow> py_error + report_line list" where
  "classification_report y_true y_pred target_names =
     (if length y_true \<noteq> length y_pred
      then Inl (ValueError ''Found input variables with inconsistent numbers of samples'')
      else
        let labels = unique_labels y_true y_pred
        in if length labels \<noteq> length target_names
           then Inl (ValueError ''Number of classes does not match size of target_names'')
           else Inr (map2 (\<lambda>l name.
                  \<lparr>class_name = name,
                   precision = class_precision y_true y_pred l,
                   recall = class_recall y_true y_pred l,
                   f1_score = class_f1 y_true y_pred l,
                   support = count_list y_true l\<rparr>) labels target_names))"

definition confusion_matrix :: "int list \<Rightarrow> int list \<Rightarrow> nat list list" where
  "confusion_matrix y_true y_pred =
     (let labels = unique_labels y_true y_pred
      in map (\<lambda>t. map (\<lambda>p. length (filter (\<lambda>(a, b). a = t \<and> b = p) (zip y_true y_pred))) labels)
           labels)"

record evaluation =
  eval_labels :: "int list"
  eval_predictions :: "int list"
  eval_report :: "report_line list"
  eval_cm :: "nat list list"

definition evaluate_model :: "hf_model \<Rightarrow> hf_dataset \<Rightarrow> py_error + evaluation" where
  "evaluate_model m dataset_split =
     (let outputs = trainer_predict m dataset_split in
      case argmax_axis1 (predictions outputs) of
        Inl e \<Rightarrow> Inl e
      | Inr am \<Rightarrow>
          (case label_ids outputs of
             None \<Rightarrow> Inl (TypeError ''label_ids is None'')
           | Some labels \<Rightarrow>
               (case classification_report labels (map int am) [''Republican'', ''Democrat''] of
                  Inl e \<Rightarrow> Inl e
                | Inr rep \<Rightarrow>
                    Inr \<lparr>eval_labels = labels,
                         eval_predictions = map int am,
                         eval_report = rep,
                         eval_cm = confusion_matrix labels (map int am)\<rparr>)))"

subsection \<open>The error analysis of the political-tweets notebook\<close>

text \<open>
  \<^verbatim>\<open>
  misclassified = np.where(test_preds != test_labels)[0]
  if len(misclassified) > 0:
      for idx in misclassified[:3]:
          original_text = split_dataset["test"][int(idx)]["sms"]
          ... original_text[:200] ...
          ... model.config.id2label[test_labels[idx]] ...
          ... model.config.id2label[test_preds[idx]] ...
  \<close>
  Against \<open>label_ids\<close> of None every position compares unequal.
\<close>

definition misclassified :: "int list \<Rightarrow> int list option \<Rightarrow> nat list" where
  "misclassified test_preds test_labels =
     (case test_labels of
        None \<Rightarrow> [0..<length test_preds]
      | Some ls \<Rightarrow> filter (\<lambda>i. i < length ls \<and> test_preds ! i \<noteq> ls ! i) [0..<length test_preds])"

definition id2label_item :: "model_config \<Rightarrow> int \<Rightarrow> py_error + string" where
  "id2label_item cfg k =
     (case map_of (id2label cfg) k of None \<Rightarrow> Inl (KeyError ''id2label'') | Some name \<Rightarrow> Inr name)"

record error_case =
  case_text :: string
  case_true :: string
  case_predicted :: string

fun error_cases ::
  "hf_dataset \<Rightarrow> model_config \<Rightarrow> int list \<Rightarrow> int list option \<Rightarrow> nat list
     \<Rightarrow> py_error + error_case list" where
  "error_cases ts cfg test_preds test_labels [] = Inr []"
| "error_cases ts cfg test_preds test_labels (idx # rest) =
     (case row_item ts idx ''sms'' of
        Inl e \<Rightarrow> Inl e
      | Inr (Text original_text) \<Rightarrow>
          (case test_labels of
             None \<Rightarrow> Inl (TypeError ''NoneType object is not subscriptable'')
           | Some ls \<Rightarrow>
               (case id2label_item cfg (ls ! idx) of
                  Inl e \<Rightarrow> Inl e
                | Inr t \<Rightarrow>
                    (case id2label_item cfg (test_preds ! idx) of
                       Inl e \<Rightarrow> Inl e
                     | Inr p \<Rightarrow>
                         (case error_cases ts cfg test_preds test_labels rest of
                            Inl e \<Rightarrow> Inl e
                          | Inr cs \<Rightarrow>
                              Inr (\<lparr>case_text = take 200 original_text,
                                    case_true = t,
                                    case_predicted = p\<rparr> # cs)))))
      | Inr other \<Rightarrow> Inl (TypeError ''original_text is not a string''))"

definition error_analysis ::
  "hf_model \<Rightarrow> hf_model \<Rightarrow> hf_dataset \<Rightarrow> hf_dataset \<Rightarrow> py_error + error_case list" where
  "error_analysis trainer_model m tokenized_test split_test =
     (let test_output = trainer_predict trainer_model tokenized_test in
      case argmax_axis1 (predictions test_output) of
        Inl e \<Rightarrow> Inl e
      | Inr am \<Rightarrow>
          error_cases split_test (config m) (map int am) (label_ids test_output)
            (take 3 (misclassified (map int am) (label_ids test_output))))"

section \<open>Running a notebook\<close>

text \<open>
  A notebook is the list of its statements in source order, each labelled with the stage
  of the pipeline it carries out. Neither notebook holds a \<open>try\<close>, a loop around a call
  or a handler: a run executes the statements one after the other and stops at the
  first exception, which reaches the notebook kernel as it was raised. \<open>Aborted\<close> keeps
  the stages completed, the stage that raised, the exception and the state the failing
  statement found.
\<close>

datatype stage =
    InstallDeps | LoadDataset | SplitDataset | LoadTokenizer | LoadModel | Tokenize
  | EvaluateBase | Placeholder | ConfigureAdapter | ApplyAdapter | ConfigureTraining
  | Train | Evaluate | Save | LoadAdapter | EvaluateTuned | ErrorAnalysis

datatype 'st outcome =
    Completed "stage list" 'st
  | Aborted "stage list" stage py_error 'st

type_synonym 'st statement = "stage \<times> ('st \<Rightarrow> py_error + 'st)"

fun exec :: "'st statement list \<Rightarrow> stage list \<Rightarrow> 'st \<Rightarrow> 'st outcome" where
  "exec [] past s = Completed past s"
| "exec ((g, f) # rest) past s =
     (case f s of
        Inl e \<Rightarrow> Aborted past g e s
      | Inr s' \<Rightarrow> exec rest (past @ [g]) s')"

definition stages_done :: "'st outcome \<Rightarrow> stage list" where
  "stages_done out = (case out of Completed past s \<Rightarrow> past | Aborted past g e s \<Rightarrow> past)"

definition is_evaluation :: "stage \<Rightarrow> bool" where
  "is_evaluation g = (g = EvaluateBase \<or> g = Evaluate \<or> g = EvaluateTuned)"

subsection \<open>What lies outside the scripts\<close>

text \<open>
  The hub, the random generator, the pretrained weights, PEFT's table of default target
  modules and the outcome of training are parameters of a run. \<open>lib_raises g\<close> is the
  exception, if any, that a library raises at stage \<open>g\<close> for a reason the script does not
  decide.
\<close>

record world =
  rng :: generator
  hub_dataset :: "string \<Rightarrow> py_error + hf_dataset"
  hub_tokenizer :: "string \<Rightarrow> py_error + hf_tokenizer"
  hub_forward :: "string \<Rightarrow> row \<Rightarrow> rat list"
  lora_default_targets :: "string \<Rightarrow> string list option"
  trained_forward :: "row \<Rightarrow> rat list"
  train_steps :: nat
  lib_raises :: "stage \<Rightarrow> py_error option"

definition external :: "world \<Rightarrow> stage \<Rightarrow> (py_error + 'a) \<Rightarrow> py_error + 'a" where
  "external w g k = (case lib_raises w g of Some e \<Rightarrow> Inl e | None \<Rightarrow> k)"

definition need :: "string \<Rightarrow> 'a option \<Rightarrow> ('a \<Rightarrow> py_error + 'b) \<Rightarrow> py_error + 'b" where
  \<comment> \<open>reading a variable that must hold a value: \<open>NameError\<close> for a name not yet bound\<close>
  "need name v k = (case v of None \<Rightarrow> Inl (NameError name) | Some x \<Rightarrow> k x)"

subsection \<open>Files written\<close>

text \<open>
  The disk is the list of files written, each with the place it went to. A Trainer
  checkpoint is written under \<open>output_dir/checkpoint-<step>\<close> and holds, next to the adapter
  and the tokenizer, the training arguments and the optimizer, scheduler, random-generator
  and trainer state. \<open>Trainer.save_model\<close> writes the adapter, its model card, the
  tokenizer (a processing class is set) and the training arguments.
\<close>

datatype file_kind =
    InstalledPackage | CachedDownload
  | AdapterWeights | AdapterConfig | ModelCard | TokenizerFiles
  | TrainingArgs | OptimizerState | SchedulerState | RngState | TrainerState

datatype location =
    SitePackages | HubCache | Directory string | Checkpoint string nat

type_synonym written = "location \<times> file_kind"

record training_arguments =
  output_dir :: string
  save_strategy :: string
  save_steps :: nat
  num_train_epochs :: nat
  per_device_train_batch_size :: nat
  load_best_model_at_end :: bool

definition peft_save_files :: "file_kind list" where
  "peft_save_files = [AdapterWeights, AdapterConfig, ModelCard]"

definition save_model_files :: "file_kind list" where
  "save_model_files = peft_save_files @ [TokenizerFiles, TrainingArgs]"

definition checkpoint_files :: "file_kind list" where
  "checkpoint_files =
     save_model_files @ [OptimizerState, SchedulerState, RngState, TrainerState]"

definition save_every :: "training_arguments \<Rightarrow> nat \<Rightarrow> nat" where
  \<comment> \<open>steps between two checkpoints; an epoch is \<open>ceil(n_train / batch size)\<close> steps\<close>
  "save_every args n_train =
     (if save_strategy args = ''steps'' then save_steps args
      else if save_strategy args = ''epoch''
      then (n_train + per_device_train_batch_size args - 1) div per_device_train_batch_size args
      else 0)"

definition checkpoint_steps :: "training_arguments \<Rightarrow> nat \<Rightarrow> nat \<Rightarrow> nat list" where
  "checkpoint_steps args n_train steps =
     (if save_every args n_train = 0 then []
      else filter (\<lambda>k. k mod save_every args n_train = 0) [1..<Suc steps])"

definition trainer_train_writes :: "training_arguments \<Rightarrow> nat \<Rightarrow> nat \<Rightarrow> written list" where
  "trainer_train_writes args n_train steps =
     concat (map (\<lambda>k. map (\<lambda>f. (Checkpoint (output_dir args) k, f)) checkpoint_files)
               (checkpoint_steps args n_train steps))"

definition trainer_save_model :: "string \<Rightarrow> written list" where
  "trainer_save_model path = map (\<lambda>f. (Directory path, f)) save_model_files"

definition peft_save_pretrained :: "string option \<Rightarrow> py_error + written list" where
  "peft_save_pretrained save_directory =
     (case save_directory of
        None \<Rightarrow> Inl (TypeError ''save_directory is None'')
      | Some path \<Rightarrow> Inr (map (\<lambda>f. (Directory path, f)) peft_save_files))"

text \<open>\<open>Trainer(model=None, ...)\<close> with no \<open>model_init\<close> raises \<open>RuntimeError\<close>.\<close>

record hf_trainer =
  trainer_model :: hf_model
  trainer_args :: training_arguments

definition new_trainer :: "hf_model option \<Rightarrow> training_arguments \<Rightarrow> py_error + hf_trainer" where
  "new_trainer m args =
     (case m of
        None \<Rightarrow> Inl (RuntimeError ''Trainer requires either a model or model_init argument'')
      | Some x \<Rightarrow> Inr \<lparr>trainer_model = x, trainer_args = args\<rparr>)"

section \<open>The political-tweets notebook\<close>

text \<open>
  The notebook's variables. A variable not yet assigned is \<open>None\<close>. \<open>evaluations\<close> collects
  what the calls of \<open>evaluate_model\<close> print, \<open>error_report\<close> what the error analysis prints,
  \<open>disk\<close> the files written so far.
\<close>

definition MODEL_ID :: string where
  "MODEL_ID = ''answerdotai/ModernBERT-base''"

definition DATASET_NAME :: string where
  "DATASET_NAME = ''Jacobvs/PoliticalTweets''"

definition ADAPTER_PATH :: string where
  "ADAPTER_PATH = ''./modernbert-political-dora-best''"

record tweets_state =
  dataset :: "hf_dataset option"
  split_dataset :: "dataset_dict option"
  tokenizer :: "hf_tokenizer option"
  base_model :: "hf_model option"
  tokenized_dataset :: "dataset_dict option"
  evaluations :: "evaluation list"
  dora_config :: "peft_lora_config option"
  model :: "hf_model option"
  training_args :: "training_arguments option"
  trainer :: "hf_trainer option"
  final_model_path :: "string option"
  error_report :: "error_case list"
  disk :: "written list"

definition tweets_initial :: tweets_state where
  "tweets_initial =
     \<lparr>dataset = None, split_dataset = None, tokenizer = None, base_model = None,
      tokenized_dataset = None, evaluations = [], dora_config = None, model = None,
      training_args = None, trainer = None, final_model_path = None, error_report = [],
      disk = []\<rparr>"

text \<open>\<^verbatim>\<open>!pip install transformers datasets peft accelerate optuna -U -q\<close>\<close>

definition tweets_install :: "world \<Rightarrow> tweets_state \<Rightarrow> py_error + tweets_state" where
  "tweets_install w s =
     external w InstallDeps (Inr (s\<lparr>disk := disk s @ [(SitePackages, InstalledPackage)]\<rparr>))"

text \<open>\<^verbatim>\<open>dataset = load_dataset(DATASET_NAME)\<close>; the model keeps its \<open>train\<close> split.\<close>

definition tweets_load_dataset :: "world \<Rightarrow> tweets_state \<Rightarrow> py_error + tweets_state" where
  "tweets_load_dataset w s =
     external w LoadDataset
       (case hub_dataset w DATASET_NAME of
          Inl e \<Rightarrow> Inl e
        | Inr ds \<Rightarrow> Inr (s\<lparr>dataset := Some ds, disk := disk s @ [(HubCache, CachedDownload)]\<rparr>))"

text \<open>\<^verbatim>\<open>split_dataset = dataset['train'].train_test_split(test_size=0.2, seed=42)\<close>\<close>

definition tweets_split :: "world \<Rightarrow> tweets_state \<Rightarrow> py_error + tweets_state" where
  "tweets_split w s =
     external w SplitDataset
       (need ''dataset'' (dataset s) (\<lambda>ds.
          case train_test_split (rng w) (1 / 5) (Some 42) ds of
            Inl e \<Rightarrow> Inl e
          | Inr dd \<Rightarrow> Inr (s\<lparr>split_dataset := Some dd\<rparr>)))"

text \<open>\<^verbatim>\<open>tokenizer = AutoTokenizer.from_pretrained(MODEL_ID)\<close>\<close>

definition tweets_load_tokenizer :: "world \<Rightarrow> tweets_state \<Rightarrow> py_error + tweets_state" where
  "tweets_load_tokenizer w s =
     external w LoadTokenizer
       (case hub_tokenizer w MODEL_ID of
          Inl e \<Rightarrow> Inl e
        | Inr tk \<Rightarrow> Inr (s\<lparr>tokenizer := Some tk, disk := disk s @ [(HubCache, CachedDownload)]\<rparr>))"

text \<open>
  \<^verbatim>\<open>
  base_model = AutoModelForSequenceClassification.from_pretrained(
      MODEL_ID, num_labels=2, id2label={0: "Republican", 1: "Democrat"}).to(DEVICE)
  \<close>
\<close>

definition tweets_base_config :: model_config where
  "tweets_base_config = \<lparr>num_labels = 2, id2label = [(0, ''Republican''), (1, ''Democrat'')]\<rparr>"

definition tweets_load_model :: "world \<Rightarrow> tweets_state \<Rightarrow> py_error + tweets_state" where
  "tweets_load_model w s =
     external w LoadModel
       (Inr (s\<lparr>base_model :=
                 Some \<lparr>checkpoint = MODEL_ID, config = tweets_base_config,
                       forward = hub_forward w MODEL_ID, peft_config = None\<rparr>,
               disk := disk s @ [(HubCache, CachedDownload)]\<rparr>))"

text \<open>
  \<^verbatim>\<open>
  tokenized_dataset = split_dataset.map(
      tokenize_function, batched=True,
      remove_columns=["index, date, id, username, text, party"])
  \<close>
  The list holds one string.
\<close>

definition tweets_remove_columns :: "string list" where
  "tweets_remove_columns = [''index, date, id, username, text, party'']"

definition tweets_tokenize :: "world \<Rightarrow> tweets_state \<Rightarrow> py_error + tweets_state" where
  "tweets_tokenize w s =
     external w Tokenize
       (need ''split_dataset'' (split_dataset s) (\<lambda>dd.
        need ''tokenizer'' (tokenizer s) (\<lambda>tk.
          case dataset_dict_map (tokenize_function tk) tweets_remove_columns dd of
            Inl e \<Rightarrow> Inl e
          | Inr td \<Rightarrow> Inr (s\<lparr>tokenized_dataset := Some td\<rparr>))))"

text \<open>\<^verbatim>\<open>evaluate_model(base_model, tokenized_dataset["test"], "Base Model")\<close>\<close>

definition tweets_evaluate_base :: "world \<Rightarrow> tweets_state \<Rightarrow> py_error + tweets_state" where
  "tweets_evaluate_base w s =
     external w EvaluateBase
       (need ''base_model'' (base_model s) (\<lambda>bm.
        need ''tokenized_dataset'' (tokenized_dataset s) (\<lambda>td.
          case evaluate_model bm (test td) of
            Inl e \<Rightarrow> Inl e
          | Inr ev \<Rightarrow> Inr (s\<lparr>evaluations := evaluations s @ [ev]\<rparr>))))"

text \<open>
  \<^verbatim>\<open>
  dora_config = LoraConfig(r=8, lora_alpha=32, target_modules=["Wqkv", "Wi", "Wo"],
      lora_dropout=0.2, bias="none", task_type="SEQ_CLS",
      modules_to_save=["classifier", "model.final_norm"], use_dora=True,
      init_lora_weights="gaussian", inference_mode=False)
  \<close>
\<close>

definition tweets_dora_config :: peft_lora_config where
  "tweets_dora_config =
     \<lparr>lora_r = 8, lora_alpha = 32, target_modules = Some [''Wqkv'', ''Wi'', ''Wo''],
      lora_dropout = 1 / 5, bias = ''none'', task_type = Some ''SEQ_CLS'',
      modules_to_save = Some [''classifier'', ''model.final_norm''], use_dora = True\<rparr>"

definition tweets_configure_adapter :: "world \<Rightarrow> tweets_state \<Rightarrow> py_error + tweets_state" where
  "tweets_configure_adapter w s =
     external w ConfigureAdapter (Inr (s\<lparr>dora_config := Some tweets_dora_config\<rparr>))"

text \<open>\<^verbatim>\<open>model = get_peft_model(base_model, dora_config)\<close>\<close>

definition tweets_apply_adapter :: "world \<Rightarrow> tweets_state \<Rightarrow> py_error + tweets_state" where
  "tweets_apply_adapter w s =
     external w ApplyAdapter
       (need ''base_model'' (base_model s) (\<lambda>bm.
        need ''dora_config'' (dora_config s) (\<lambda>cfg.
          case get_peft_model (lora_default_targets w) bm cfg of
            Inl e \<Rightarrow> Inl e
          | Inr m \<Rightarrow> Inr (s\<lparr>model := Some m\<rparr>))))"

text \<open>
  \<^verbatim>\<open>
  training_args = TrainingArguments(output_dir=ADAPTER_PATH, ..., num_train_epochs=8,
      per_device_train_batch_size=32, save_strategy="steps", save_steps=50, ...,
      load_best_model_at_end=True, ...)
  trainer = Trainer(model=model, args=training_args,
      train_dataset=tokenized_dataset["train"], eval_dataset=tokenized_dataset["test"],
      compute_metrics=compute_metrics, ...)
  \<close>
\<close>

definition tweets_training_args :: training_arguments where
  "tweets_training_args =
     \<lparr>output_dir = ADAPTER_PATH, save_strategy = ''steps'', save_steps = 50,
      num_train_epochs = 8, per_device_train_batch_size = 32,
      load_best_model_at_end = True\<rparr>"

definition tweets_configure_training :: "world \<Rightarrow> tweets_state \<Rightarrow> py_error + tweets_state" where
  "tweets_configure_training w s =
     external w ConfigureTraining
       (need ''model'' (model s) (\<lambda>m.
        need ''tokenized_dataset'' (tokenized_dataset s) (\<lambda>td.
          case new_trainer (Some m) tweets_training_args of
            Inl e \<Rightarrow> Inl e
          | Inr t \<Rightarrow>
              Inr (s\<lparr>training_args := Some tweets_training_args, trainer := Some t\<rparr>))))"

text \<open>
  \<^verbatim>\<open>train_results = trainer.train()\<close>: the adapted model is trained in place, so the
  variable \<open>model\<close> and the trainer's model are the same trained object; the checkpoints
  are written on the way. What training computes, the evaluations every 50 steps with
  \<open>compute_metrics\<close> and the early stopping among it, is the framework's: the run takes
  the number of steps and the trained classifier from the world.
\<close>

definition tweets_train :: "world \<Rightarrow> tweets_state \<Rightarrow> py_error + tweets_state" where
  "tweets_train w s =
     external w Train
       (need ''trainer'' (trainer s) (\<lambda>t.
        need ''tokenized_dataset'' (tokenized_dataset s) (\<lambda>td.
          let trained = (trainer_model t)\<lparr>forward := trained_forward w\<rparr>
          in Inr (s\<lparr>model := Some trained,
                    trainer := Some (t\<lparr>trainer_model := trained\<rparr>),
                    disk := disk s @ trainer_train_writes (trainer_args t)
                                       (length (rows (train td))) (train_steps w)\<rparr>))))"

text \<open>
  \<^verbatim>\<open>
  final_model_path = "./modernbert-political-dora-final"
  trainer.save_model(final_model_path)
  tokenizer.save_pretrained(final_model_path)
  \<close>
\<close>

definition tweets_save :: "world \<Rightarrow> tweets_state \<Rightarrow> py_error + tweets_state" where
  "tweets_save w s =
     external w Save
       (need ''trainer'' (trainer s) (\<lambda>t.
        need ''tokenizer'' (tokenizer s) (\<lambda>tk.
          let path = ''./modernbert-political-dora-final''
          in Inr (s\<lparr>final_model_path := Some path,
                    disk := disk s @ trainer_save_model path
                                     @ [(Directory path, TokenizerFiles)]\<rparr>))))"

text \<open>
  \<^verbatim>\<open>
  model = PeftModel.from_pretrained(base_model, final_model_path)
  model = model.merge_and_unload().to(DEVICE)
  \<close>
  The adapter is read back from the files that the save wrote.
\<close>

definition tweets_load_adapter :: "world \<Rightarrow> tweets_state \<Rightarrow> py_error + tweets_state" where
  "tweets_load_adapter w s =
     external w LoadAdapter
       (need ''base_model'' (base_model s) (\<lambda>bm.
        need ''final_model_path'' (final_model_path s) (\<lambda>path.
          if (Directory path, AdapterWeights) \<in> set (disk s)
          then Inr (s\<lparr>model := Some (bm\<lparr>forward := trained_forward w\<rparr>)\<rparr>)
          else Inl (ValueError ''adapter files not found''))))"

text \<open>\<^verbatim>\<open>evaluate_model(model, tokenized_dataset["test"], "Fine-tuned Model")\<close>\<close>

definition tweets_evaluate_tuned :: "world \<Rightarrow> tweets_state \<Rightarrow> py_error + tweets_state" where
  "tweets_evaluate_tuned w s =
     external w EvaluateTuned
       (need ''model'' (model s) (\<lambda>m.
        need ''tokenized_dataset'' (tokenized_dataset s) (\<lambda>td.
          case evaluate_model m (test td) of
            Inl e \<Rightarrow> Inl e
          | Inr ev \<Rightarrow> Inr (s\<lparr>evaluations := evaluations s @ [ev]\<rparr>))))"

text \<open>The error analysis, on \<open>trainer.predict(tokenized_dataset["test"])\<close>.\<close>

definition tweets_error_analysis :: "world \<Rightarrow> tweets_state \<Rightarrow> py_error + tweets_state" where
  "tweets_error_analysis w s =
     external w ErrorAnalysis
       (need ''trainer'' (trainer s) (\<lambda>t.
        need ''model'' (model s) (\<lambda>m.
        need ''tokenized_dataset'' (tokenized_dataset s) (\<lambda>td.
        need ''split_dataset'' (split_dataset s) (\<lambda>dd.
          case error_analysis (trainer_model t) m (test td) (test dd) of
            Inl e \<Rightarrow> Inl e
          | Inr cases \<Rightarrow> Inr (s\<lparr>error_report := cases\<rparr>))))))"

definition tweets_notebook :: "world \<Rightarrow> tweets_state statement list" where
  "tweets_notebook w =
     [(InstallDeps, tweets_install w),
      (LoadDataset, tweets_load_dataset w),
      (SplitDataset, tweets_split w),
      (LoadTokenizer, tweets_load_tokenizer w),
      (LoadModel, tweets_load_model w),
      (Tokenize, tweets_tokenize w),
      (EvaluateBase, tweets_evaluate_base w),
      (ConfigureAdapter, tweets_configure_adapter w),
      (ApplyAdapter, tweets_apply_adapter w),
      (ConfigureTraining, tweets_configure_training w),
      (Train, tweets_train w),
      (Save, tweets_save w),
      (LoadAdapter, tweets_load_adapter w),
      (EvaluateTuned, tweets_evaluate_tuned w),
      (ErrorAnalysis, tweets_error_analysis w)]"

definition run_tweets :: "world \<Rightarrow> tweets_state outcome" where
  "run_tweets w = exec (tweets_notebook w) [] tweets_initial"

section \<open>The SMS notebook\<close>

text \<open>
  \<open>LightweightFineTuning-Abhishek.ipynb\<close>. Several of its cells still hold the template's
  \<open>None\<close>: the baseline trainer and evaluation, the LoRA target modules and task type,
  the directory to save to, the reloaded model, and the body of \<open>compute_metrics\<close>.
  A variable that is unassigned or bound to Python's None is \<open>None\<close>.
\<close>

record sms_state =
  sms_dataset :: "dataset_dict option"
  sms_tokenizer :: "hf_tokenizer option"
  sms_tokenized_dataset :: "(string \<rightharpoonup> hf_dataset) option"
  sms_model :: "hf_model option"
  sms_trainer :: "hf_trainer option"
  pre_finetune_eval :: "(string \<times> py_float option) list option"
  lora_config :: "peft_lora_config option"
  peft_model :: "hf_model option"
  post_finetune_eval :: "(string \<times> py_float option) list option"
  lora_model :: "hf_model option"
  loaded_trainer :: "hf_trainer option"
  loaded_model_eval :: "(string \<times> py_float option) list option"
  sms_disk :: "written list"

definition sms_initial :: sms_state where
  "sms_initial =
     \<lparr>sms_dataset = None, sms_tokenizer = None, sms_tokenized_dataset = None,
      sms_model = None, sms_trainer = None, pre_finetune_eval = None, lora_config = None,
      peft_model = None, post_finetune_eval = None, lora_model = None,
      loaded_trainer = None, loaded_model_eval = None, sms_disk = []\<rparr>"

definition sms_install :: "world \<Rightarrow> sms_state \<Rightarrow> py_error + sms_state" where
  "sms_install w s =
     external w InstallDeps
       (Inr (s\<lparr>sms_disk := sms_disk s @ [(SitePackages, InstalledPackage)]\<rparr>))"

text \<open>
  \<^verbatim>\<open>
  dataset = load_dataset("sms_spam", split="train").train_test_split(
      test_size=0.2, shuffle=True, seed=23)
  \<close>
\<close>

definition sms_load_dataset :: "world \<Rightarrow> sms_state \<Rightarrow> py_error + sms_state" where
  "sms_load_dataset w s =
     external w LoadDataset
       (case hub_dataset w ''sms_spam'' of
          Inl e \<Rightarrow> Inl e
        | Inr ds \<Rightarrow>
            (case train_test_split (rng w) (1 / 5) (Some 23) ds of
               Inl e \<Rightarrow> Inl e
             | Inr dd \<Rightarrow>
                 Inr (s\<lparr>sms_dataset := Some dd,
                        sms_disk := sms_disk s @ [(HubCache, CachedDownload)]\<rparr>)))"

text \<open>
  \<^verbatim>\<open>
  tokenizer = AutoTokenizer.from_pretrained("distilbert-base-uncased")
  tokenized_dataset = {}
  for split in splits:
      tokenized_dataset[split] = dataset[split].map(
          lambda x: tokenizer(x["sms"], truncation=True), batched=True)
  \<close>
\<close>

definition sms_load_tokenizer :: "world \<Rightarrow> sms_state \<Rightarrow> py_error + sms_state" where
  "sms_load_tokenizer w s =
     external w LoadTokenizer
       (case hub_tokenizer w ''distilbert-base-uncased'' of
          Inl e \<Rightarrow> Inl e
        | Inr tk \<Rightarrow>
            Inr (s\<lparr>sms_tokenizer := Some tk, sms_tokenized_dataset := Some Map.empty,
                   sms_disk := sms_disk s @ [(HubCache, CachedDownload)]\<rparr>))"

definition dataset_dict_item :: "dataset_dict \<Rightarrow> string \<Rightarrow> py_error + hf_dataset" where
  "dataset_dict_item dd split =
     (if split = ''train'' then Inr (train dd)
      else if split = ''test'' then Inr (test dd)
      else Inl (KeyError split))"

definition sms_tokenize :: "string \<Rightarrow> world \<Rightarrow> sms_state \<Rightarrow> py_error + sms_state" where
  "sms_tokenize split w s =
     external w Tokenize
       (need ''dataset'' (sms_dataset s) (\<lambda>dd.
        need ''tokenizer'' (sms_tokenizer s) (\<lambda>tk.
        need ''tokenized_dataset'' (sms_tokenized_dataset s) (\<lambda>td.
          case dataset_dict_item dd split of
            Inl e \<Rightarrow> Inl e
          | Inr ds \<Rightarrow>
              (case dataset_map (sms_tokenize_lambda tk) [] ds of
                 Inl e \<Rightarrow> Inl e
               | Inr tds \<Rightarrow> Inr (s\<lparr>sms_tokenized_dataset := Some (td(split \<mapsto> tds))\<rparr>))))))"

text \<open>
  \<^verbatim>\<open>
  def compute_metrics(eval_pred):
      predictions, labels = eval_pred
      predictions = None  # Replace None with np.argmax to get predicted classes.
      return {"accuracy": None}  # Replace None to compute the mean of correct predictions.
  \<close>
  \<open>Trainer.evaluate\<close> returns the metrics under the prefix \<open>eval_\<close>; it calls
  \<open>compute_metrics\<close> only when the dataset has labels.
\<close>

definition sms_compute_metrics ::
  "rat list list \<times> int list \<Rightarrow> (string \<times> py_float option) list" where
  "sms_compute_metrics eval_pred = [(''accuracy'', None)]"

definition trainer_evaluate :: "hf_model \<Rightarrow> hf_dataset \<Rightarrow> (string \<times> py_float option) list" where
  "trainer_evaluate m ds =
     (let out = trainer_predict m ds in
      case label_ids out of
        None \<Rightarrow> []
      | Some ls \<Rightarrow> map (\<lambda>(k, v). (''eval_'' @ k, v)) (sms_compute_metrics (predictions out, ls)))"

text \<open>
  \<^verbatim>\<open>
  model = AutoModelForSequenceClassification.from_pretrained(
      "distilbert-base-uncased", num_labels=2,
      id2label={0: "not spam", 1: "spam"}, label2id={"not spam": 0, "spam": 1})
  \<close>
\<close>

definition sms_base_config :: model_config where
  "sms_base_config = \<lparr>num_labels = 2, id2label = [(0, ''not spam''), (1, ''spam'')]\<rparr>"

definition sms_load_model :: "world \<Rightarrow> sms_state \<Rightarrow> py_error + sms_state" where
  "sms_load_model w s =
     external w LoadModel
       (Inr (s\<lparr>sms_model :=
                 Some \<lparr>checkpoint = ''distilbert-base-uncased'', config = sms_base_config,
                       forward = hub_forward w ''distilbert-base-uncased'',
                       peft_config = None\<rparr>,
               sms_disk := sms_disk s @ [(HubCache, CachedDownload)]\<rparr>))"

text \<open>
  \<^verbatim>\<open>
  print("Evaluating the model before fine-tuning...")
  trainer = None  # Replace with the code given in Hint 2 above
  pre_finetune_eval = None  # Replace None with the appropriate trainer.evaluate() call.
  print(pre_finetune_eval)
  \<close>
\<close>

definition sms_baseline_placeholder :: "world \<Rightarrow> sms_state \<Rightarrow> py_error + sms_state" where
  "sms_baseline_placeholder w s = Inr (s\<lparr>sms_trainer := None, pre_finetune_eval := None\<rparr>)"

text \<open>
  \<^verbatim>\<open>
  lora_config = LoraConfig(r=16, lora_alpha=16, lora_dropout=0.05,
      target_modules=None,  # Replace None with the list of target modules.
      bias='none',
      task_type=None  # Replace None with the correct task type.
  )
  peft_model = get_peft_model(model, lora_config)
  \<close>
\<close>

definition sms_lora_config :: peft_lora_config where
  "sms_lora_config =
     \<lparr>lora_r = 16, lora_alpha = 16, target_modules = None, lora_dropout = 1 / 20,
      bias = ''none'', task_type = None, modules_to_save = None, use_dora = False\<rparr>"

definition sms_configure_adapter :: "world \<Rightarrow> sms_state \<Rightarrow> py_error + sms_state" where
  "sms_configure_adapter w s =
     external w ConfigureAdapter (Inr (s\<lparr>lora_config := Some sms_lora_config\<rparr>))"

definition sms_apply_adapter :: "world \<Rightarrow> sms_state \<Rightarrow> py_error + sms_state" where
  "sms_apply_adapter w s =
     external w ApplyAdapter
       (need ''model'' (sms_model s) (\<lambda>m.
        need ''lora_config'' (lora_config s) (\<lambda>cfg.
          case get_peft_model (lora_default_targets w) m cfg of
            Inl e \<Rightarrow> Inl e
          | Inr pm \<Rightarrow> Inr (s\<lparr>peft_model := Some pm\<rparr>))))"

text \<open>
  \<^verbatim>\<open>
  trainer = Trainer(model=peft_model,
      args=TrainingArguments(output_dir="./result-distilbert-lora", ...,
          per_device_train_batch_size=4, save_strategy="epoch", save_steps=1,
          num_train_epochs=2, load_best_model_at_end=True, report_to="none"),
      train_dataset=tokenized_dataset["train"], eval_dataset=tokenized_dataset["test"], ...)
  trainer.train()
  \<close>
\<close>

definition sms_training_args :: training_arguments where
  "sms_training_args =
     \<lparr>output_dir = ''./result-distilbert-lora'', save_strategy = ''epoch'', save_steps = 1,
      num_train_epochs = 2, per_device_train_batch_size = 4,
      load_best_model_at_end = True\<rparr>"

definition sms_train :: "world \<Rightarrow> sms_state \<Rightarrow> py_error + sms_state" where
  "sms_train w s =
     external w Train
       (need ''peft_model'' (peft_model s) (\<lambda>pm.
        need ''tokenized_dataset'' (sms_tokenized_dataset s) (\<lambda>td.
          case td ''train'' of
            None \<Rightarrow> Inl (KeyError ''train'')
          | Some tr \<Rightarrow>
              (case td ''test'' of
                 None \<Rightarrow> Inl (KeyError ''test'')
               | Some te \<Rightarrow>
                   (case new_trainer (Some pm) sms_training_args of
                      Inl e \<Rightarrow> Inl e
                    | Inr t \<Rightarrow>
                        let trained = (trainer_model t)\<lparr>forward := trained_forward w\<rparr>
                        in Inr (s\<lparr>peft_model := Some trained,
                                  sms_trainer := Some (t\<lparr>trainer_model := trained\<rparr>),
                                  sms_disk :=
                                    sms_disk s @ trainer_train_writes sms_training_args
                                                   (length (rows tr)) (train_steps w)\<rparr>))))))"

text \<open>\<^verbatim>\<open>post_finetune_eval = trainer.evaluate()\<close>\<close>

definition sms_evaluate :: "world \<Rightarrow> sms_state \<Rightarrow> py_error + sms_state" where
  "sms_evaluate w s =
     external w Evaluate
       (need ''trainer'' (sms_trainer s) (\<lambda>t.
        need ''tokenized_dataset'' (sms_tokenized_dataset s) (\<lambda>td.
          case td ''test'' of
            None \<Rightarrow> Inl (KeyError ''test'')
          | Some te \<Rightarrow>
              Inr (s\<lparr>post_finetune_eval := Some (trainer_evaluate (trainer_model t) te)\<rparr>))))"

text \<open>\<^verbatim>\<open>peft_model.save_pretrained(None)  # Replace None with the directory path.\<close>\<close>

definition sms_save :: "world \<Rightarrow> sms_state \<Rightarrow> py_error + sms_state" where
  "sms_save w s =
     external w Save
       (need ''peft_model'' (peft_model s) (\<lambda>pm.
          case peft_save_pretrained None of
            Inl e \<Rightarrow> Inl e
          | Inr files \<Rightarrow> Inr (s\<lparr>sms_disk := sms_disk s @ files\<rparr>)))"

text \<open>\<^verbatim>\<open>lora_model = None  # Replace None with the appropriate code to load the model.\<close>\<close>

definition sms_load_adapter :: "world \<Rightarrow> sms_state \<Rightarrow> py_error + sms_state" where
  "sms_load_adapter w s = Inr (s\<lparr>lora_model := None\<rparr>)"

text \<open>
  \<^verbatim>\<open>
  loaded_trainer = Trainer(model=lora_model,
      args=TrainingArguments(output_dir="./result-distilbert-lora", ...),
      eval_dataset=tokenized_dataset["test"], ...)
  loaded_model_eval = loaded_trainer.evaluate()
  \<close>
\<close>

definition sms_evaluate_loaded :: "world \<Rightarrow> sms_state \<Rightarrow> py_error + sms_state" where
  "sms_evaluate_loaded w s =
     external w EvaluateTuned
       (need ''tokenized_dataset'' (sms_tokenized_dataset s) (\<lambda>td.
          case td ''test'' of
            None \<Rightarrow> Inl (KeyError ''test'')
          | Some te \<Rightarrow>
              (case new_trainer (lora_model s) sms_training_args of
                 Inl e \<Rightarrow> Inl e
               | Inr t \<Rightarrow>
                   Inr (s\<lparr>loaded_trainer := Some t,
                          loaded_model_eval :=
                            Some (trainer_evaluate (trainer_model t) te)\<rparr>))))"

definition sms_notebook :: "world \<Rightarrow> sms_state statement list" where
  "sms_notebook w =
     [(InstallDeps, sms_install w),
      (LoadDataset, sms_load_dataset w),
      (LoadTokenizer, sms_load_tokenizer w),
      (Tokenize, sms_tokenize ''train'' w),
      (Tokenize, sms_tokenize ''test'' w),
      (LoadModel, sms_load_model w),
      (Placeholder, sms_baseline_placeholder w),
      (ConfigureAdapter, sms_configure_adapter w),
      (ApplyAdapter, sms_apply_adapter w),
      (Train, sms_train w),
      (Evaluate, sms_evaluate w),
      (Save, sms_save w),
      (Placeholder, sms_load_adapter w),
      (EvaluateTuned, sms_evaluate_loaded w)]"

definition run_sms :: "world \<Rightarrow> sms_state outcome" where
  "run_sms w = exec (sms_notebook w) [] sms_initial"

section \<open>Concrete runs\<close>

text \<open>
  Reading a run: the stage that raised with its exception, and the state the run ended
  in (for an aborted run, the state at the point of failure).
\<close>

definition abort_of :: "'st outcome \<Rightarrow> (stage \<times> py_error) option" where
  "abort_of out = (case out of Completed past s \<Rightarrow> None | Aborted past g e s \<Rightarrow> Some (g, e))"


text \<open>
  Worlds to run the notebooks in. No library fails for a reason of its own in any of
  them; PEFT has no default target modules for the checkpoint, as in the run that the
  SMS notebook records; training takes 100 steps.
\<close>

definition example_tokenizer :: hf_tokenizer where
  "example_tokenizer =
     \<lparr>encode = map of_char, cls_token_id = 101, sep_token_id = 102, pad_token_id = 0,
      model_max_length = 512\<rparr>"

definition example_generator :: generator where
  "example_generator = \<lparr>permutation = (\<lambda>seed n. rev [0..<n]), entropy = 0\<rparr>"

text \<open>Five tweets under the six columns that the notebook means to remove.\<close>

definition tweet_row :: "nat \<Rightarrow> row" where
  "tweet_row i =
     [(''index'', Integer (int i)), (''date'', Text ''2021-01-06''), (''id'', Integer (int i)),
      (''username'', Text ''senator''), (''text'', Text ''vote''),
      (''party'', Text (if even i then ''Democrat'' else ''Republican''))]"

definition tweets_table :: hf_dataset where
  "tweets_table =
     \<lparr>column_names = [''index'', ''date'', ''id'', ''username'', ''text'', ''party''],
      rows = map tweet_row [0..<5]\<rparr>"

definition world_tweets :: world where
  "world_tweets =
     \<lparr>rng = example_generator,
      hub_dataset = (\<lambda>name. Inr tweets_table),
      hub_tokenizer = (\<lambda>name. Inr example_tokenizer),
      hub_forward = (\<lambda>name rw. [0, 0]),
      lora_default_targets = (\<lambda>c. None),
      trained_forward = (\<lambda>rw. [0, 1]),
      train_steps = 100,
      lib_raises = (\<lambda>g. None)\<rparr>"

text \<open>
  Ten labelled texts in a table that does have a column named
  \<open>index, date, id, username, text, party\<close>, so that the tokenization of the
  political-tweets notebook goes through.
\<close>

definition labelled_row :: "nat \<Rightarrow> row" where
  "labelled_row i =
     [(''index, date, id, username, text, party'', Null), (''text'', Text ''vote''),
      (''label'', Integer (int (i mod 2)))]"

definition labelled_table :: hf_dataset where
  "labelled_table =
     \<lparr>column_names = [''index, date, id, username, text, party'', ''text'', ''label''],
      rows = map labelled_row [0..<10]\<rparr>"

definition world_labelled :: world where
  "world_labelled =
     world_tweets\<lparr>rng := \<lparr>permutation = (\<lambda>seed n. [0..<n]), entropy = 0\<rparr>,
                   hub_dataset := (\<lambda>name. Inr labelled_table)\<rparr>"

text \<open>Five SMS messages under the columns \<open>sms\<close> and \<open>label\<close>.\<close>

definition sms_row :: "nat \<Rightarrow> row" where
  "sms_row i = [(''sms'', Text ''call now''), (''label'', Integer (int (i mod 2)))]"

definition sms_table :: hf_dataset where
  "sms_table = \<lparr>column_names = [''sms'', ''label''], rows = map sms_row [0..<5]\<rparr>"

definition world_sms :: world where
  "world_sms = world_tweets\<lparr>hub_dataset := (\<lambda>name. Inr sms_table)\<rparr>"

text \<open>A classifier with the tweets configuration that answers every example alike.\<close>

definition example_model :: hf_model where
  "example_model =
     \<lparr>checkpoint = MODEL_ID, config = tweets_base_config, forward = (\<lambda>rw. [0, 0]),
      peft_config = None\<rparr>"

text \<open>Six SMS messages: a number of rows that five does not divide.\<close>

definition short_table :: hf_dataset where
  "short_table = \<lparr>column_names = [''sms'', ''label''], rows = map sms_row [0..<6]\<rparr>"


section \<open>Properties of the numeric helpers\<close>

lemma argmax_from_bound: "bi < i + length xs \<Longrightarrow> bi \<le> i \<Longrightarrow> argmax_from best bi i xs < i + length xs"
  by (induction best bi i xs rule: argmax_from.induct) auto

lemma argmax_Inr_bound:
  assumes "row \<noteq> []"
  shows "\<exists>p. argmax row = Inr p \<and> p < length row"
proof (cases row)
  case Nil
  with assms show ?thesis by simp
next
  case (Cons x xs)
  have "argmax_from x 0 1 xs < 1 + length xs"
    by (rule argmax_from_bound) auto
  with Cons show ?thesis by (simp add: argmax_def)
qed

lemma argmax_axis1_Inr:
  assumes "\<forall>row \<in> set logits. row \<noteq> []"
  shows "\<exists>ps. argmax_axis1 logits = Inr ps \<and> length ps = length logits
           \<and> (\<forall>i < length logits. argmax (logits ! i) = Inr (ps ! i))"
  using assms
proof (induction logits)
  case Nil
  then show ?case by simp
next
  case (Cons row rest)
  then obtain ps where ps: "argmax_axis1 rest = Inr ps" "length ps = length rest"
    "\<forall>i < length rest. argmax (rest ! i) = Inr (ps ! i)"
    by auto
  from Cons.prems obtain p where p: "argmax row = Inr p"
    using argmax_Inr_bound [of row] by auto
  have "\<forall>i < length (row # rest). argmax ((row # rest) ! i) = Inr ((p # ps) ! i)"
    using p ps(3) by (auto simp: nth_Cons split: nat.splits)
  with p ps show ?case by simp
qed

lemma argmax_axis1_bound:
  assumes "\<forall>row \<in> set logits. length row = n" and "0 < n"
  shows "\<exists>am. argmax_axis1 logits = Inr am \<and> length am = length logits \<and> (\<forall>p \<in> set am. p < n)"
proof -
  have ne: "\<forall>row \<in> set logits. row \<noteq> []" using assms by auto
  from argmax_axis1_Inr [OF ne] obtain am where
    am: "argmax_axis1 logits = Inr am" "length am = length logits"
        "\<forall>i < length logits. argmax (logits ! i) = Inr (am ! i)"
    by blast
  have "p < n" if "p \<in> set am" for p
  proof -
    from that obtain i where i: "i < length am" "am ! i = p" by (auto simp: in_set_conv_nth)
    then have row: "logits ! i \<in> set logits" using am(2) by simp
    then have "logits ! i \<noteq> []" using ne by blast
    from argmax_Inr_bound [OF this] obtain q where
      q: "argmax (logits ! i) = Inr q" "q < length (logits ! i)" by blast
    have "q = p" using q(1) am(3) i am(2) by simp
    then show ?thesis using q(2) assms(1) row by simp
  qed
  with am show ?thesis by blast
qed

subsection \<open>The metrics lie between 0 and 1\<close>

lemma tp_sum_le_pred: "tp_sum l y_true y_pred \<le> count_list y_pred l"
  unfolding tp_sum_def
  by (induction y_true y_pred rule: list_induct2') auto

lemma tp_sum_le_true: "tp_sum l y_true y_pred \<le> count_list y_true l"
  unfolding tp_sum_def
  by (induction y_true y_pred rule: list_induct2') auto

lemma prf_divide_unit: "a \<le> b \<Longrightarrow> 0 \<le> prf_divide a b \<and> prf_divide a b \<le> 1"
  by (simp add: prf_divide_def)

lemma class_precision_unit:
  "0 \<le> class_precision y_true y_pred l \<and> class_precision y_true y_pred l \<le> 1"
  unfolding class_precision_def by (rule prf_divide_unit) (rule tp_sum_le_pred)

lemma class_recall_unit:
  "0 \<le> class_recall y_true y_pred l \<and> class_recall y_true y_pred l \<le> 1"
  unfolding class_recall_def by (rule prf_divide_unit) (rule tp_sum_le_true)

lemma class_f1_unit:
  "0 \<le> class_f1 y_true y_pred l \<and> class_f1 y_true y_pred l \<le> 1"
proof -
  have "2 * tp_sum l y_true y_pred \<le> count_list y_true l + count_list y_pred l"
    using tp_sum_le_pred [of l y_true y_pred] tp_sum_le_true [of l y_true y_pred] by simp
  then show ?thesis unfolding class_f1_def by (rule prf_divide_unit)
qed

lemma sum_list_unit:
  fixes xs :: "rat list"
  shows "\<forall>x \<in> set xs. 0 \<le> x \<and> x \<le> 1 \<Longrightarrow> 0 \<le> sum_list xs \<and> sum_list xs \<le> rat_of_nat (length xs)"
  by (induction xs) auto

lemma nanaverage_unit:
  assumes "xs \<noteq> []" and "\<forall>x \<in> set xs. 0 \<le> x \<and> x \<le> 1"
  shows "\<exists>q. nanaverage xs = Float q \<and> 0 \<le> q \<and> q \<le> 1"
proof -
  have "0 \<le> sum_list xs \<and> sum_list xs \<le> rat_of_nat (length xs)"
    using assms(2) by (rule sum_list_unit)
  moreover have "0 < rat_of_nat (length xs)" using assms(1) by simp
  ultimately have "0 \<le> sum_list xs / rat_of_nat (length xs)
      \<and> sum_list xs / rat_of_nat (length xs) \<le> 1"
    by (simp add: divide_le_eq)
  then show ?thesis using assms(1) by (simp add: nanaverage_def)
qed

lemma unique_labels_nonempty: "y_true \<noteq> [] \<Longrightarrow> unique_labels y_true y_pred \<noteq> []"
proof -
  assume "y_true \<noteq> []"
  then have "set (unique_labels y_true y_pred) \<noteq> {}" by (simp add: unique_labels_def)
  then show ?thesis by auto
qed

lemma prfs_unit:
  assumes "length y_true = length y_pred" and "y_true \<noteq> []"
  shows "\<exists>p r f. precision_recall_fscore_support y_true y_pred = Inr (Float p, Float r, Float f)
           \<and> 0 \<le> p \<and> p \<le> 1 \<and> 0 \<le> r \<and> r \<le> 1 \<and> 0 \<le> f \<and> f \<le> 1"
proof -
  let ?ls = "unique_labels y_true y_pred"
  have ne: "?ls \<noteq> []" using assms(2) by (rule unique_labels_nonempty)
  obtain p where p: "nanaverage (map (class_precision y_true y_pred) ?ls) = Float p" "0 \<le> p" "p \<le> 1"
    using nanaverage_unit [of "map (class_precision y_true y_pred) ?ls"] ne class_precision_unit
    by auto
  obtain r where r: "nanaverage (map (class_recall y_true y_pred) ?ls) = Float r" "0 \<le> r" "r \<le> 1"
    using nanaverage_unit [of "map (class_recall y_true y_pred) ?ls"] ne class_recall_unit
    by auto
  obtain f where f: "nanaverage (map (class_f1 y_true y_pred) ?ls) = Float f" "0 \<le> f" "f \<le> 1"
    using nanaverage_unit [of "map (class_f1 y_true y_pred) ?ls"] ne class_f1_unit
    by auto
  have "precision_recall_fscore_support y_true y_pred = Inr (Float p, Float r, Float f)"
    using assms(1) p(1) r(1) f(1) by (simp add: precision_recall_fscore_support_def)
  with p r f show ?thesis by blast
qed

lemma matches_card:
  assumes "length xs = length ys"
  shows "length (filter id (map2 (=) xs ys)) = card {i. i < length ys \<and> xs ! i = ys ! i}"
proof -
  have "length (filter id (map2 (=) xs ys))
      = card {i. i < length (map2 (=) xs ys) \<and> id (map2 (=) xs ys ! i)}"
    by (rule length_filter_conv_card)
  also have "{i. i < length (map2 (=) xs ys) \<and> id (map2 (=) xs ys ! i)}
      = {i. i < length ys \<and> xs ! i = ys ! i}"
    using assms by auto
  finally show ?thesis .
qed

section \<open>Properties of tokenization and padding\<close>






section \<open>Properties of the split\<close>

lemma n_test_fifth: "n_test_of (1 / 5) n = (n + 4) div 5"
proof -
  have "\<lceil>(1 / 5 :: rat) * rat_of_nat n\<rceil> = \<lceil>rat_of_int (int n) / rat_of_int 5\<rceil>" by simp
  also have "\<dots> = - (- int n div 5)" by (rule ceiling_divide_eq_div)
  also have "\<dots> = int ((n + 4) div 5)" by linarith
  finally show ?thesis by (simp add: n_test_of_def)
qed

lemma select_length:
  "set idx \<subseteq> {..<length (rows ds)} \<Longrightarrow> length (rows (select ds idx)) = length idx"
proof -
  assume "set idx \<subseteq> {..<length (rows ds)}"
  then have "filter (\<lambda>i. i < length (rows ds)) idx = idx" by (auto simp: filter_id_conv)
  then show ?thesis by (simp add: select_def)
qed



lemma train_test_split_seeded:
  "train_test_split (g\<lparr>entropy := e\<rparr>) t (Some seed) = train_test_split g t (Some seed)"
  by (rule ext) (simp add: train_test_split_def Let_def)

section \<open>Labels pass through the split, the tokenization and the prediction\<close>









subsection \<open>What each statement of the tweets notebook does to the data\<close>
















section \<open>Properties of a run\<close>


lemma stages_done_exec:
  "\<exists>k. stages_done (exec prog past s) = past @ take k (map fst prog)"
proof (induction prog arbitrary: past s)
  case Nil
  then show ?case by (simp add: stages_done_def)
next
  case (Cons st prog)
  obtain g f where st: "st = (g, f)" by (cases st)
  show ?case
  proof (cases "f s")
    case (Inl e)
    then have "stages_done (exec (st # prog) past s) = past @ take 0 (map fst (st # prog))"
      using st by (simp add: stages_done_def)
    then show ?thesis by blast
  next
    case (Inr s1)
    from Cons.IH [of "past @ [g]" s1] obtain k where
      "stages_done (exec prog (past @ [g]) s1) = (past @ [g]) @ take k (map fst prog)" by blast
    then have "stages_done (exec (st # prog) past s) = past @ take (Suc k) (map fst (st # prog))"
      using st Inr by simp
    then show ?thesis by blast
  qed
qed

lemma stages_done_prefix: "prefix (stages_done (exec prog [] s)) (map fst prog)"
proof -
  obtain k where "stages_done (exec prog [] s) = take k (map fst prog)"
    using stages_done_exec [of prog "[]" s] by auto
  then show ?thesis by (simp add: take_is_prefix)
qed


lemma exec_Completed_all:
  "exec prog past s0 = Completed tr s \<Longrightarrow> \<forall>(g, f) \<in> set prog. \<exists>s1 s2. f s1 = Inr s2"
proof (induction prog arbitrary: past s0)
  case Nil
  then show ?case by simp
next
  case (Cons st prog)
  obtain g f where st: "st = (g, f)" by (cases st)
  show ?case
  proof (cases "f s0")
    case (Inl e)
    with Cons.prems st show ?thesis by simp
  next
    case (Inr s1)
    with Cons.prems st have "exec prog (past @ [g]) s1 = Completed tr s" by simp
    from Cons.IH [OF this] show ?thesis using st Inr by auto
  qed
qed

lemma sms_save_raises: "sms_save w s \<noteq> Inr s'"
  by (simp add: sms_save_def external_def need_def peft_save_pretrained_def
      split: option.splits)

lemma run_sms_never_completes: "run_sms w \<noteq> Completed tr s"
proof
  assume "run_sms w = Completed tr s"
  then have "\<forall>(g, f) \<in> set (sms_notebook w). \<exists>s1 s2. f s1 = Inr s2"
    unfolding run_sms_def by (rule exec_Completed_all)
  moreover have "(Save, sms_save w) \<in> set (sms_notebook w)"
    by (simp add: sms_notebook_def)
  ultimately obtain s1 s2 where "sms_save w s1 = Inr s2" by blast
  then show False using sms_save_raises by blast
qed

lemma tweets_stage_list:
  "map fst (tweets_notebook w) =
     [InstallDeps, LoadDataset, SplitDataset, LoadTokenizer, LoadModel, Tokenize,
      EvaluateBase, ConfigureAdapter, ApplyAdapter, ConfigureTraining, Train, Save,
      LoadAdapter, EvaluateTuned, ErrorAnalysis]"
  by (simp add: tweets_notebook_def)

lemma sms_stage_list:
  "map fst (sms_notebook w) =
     [InstallDeps, LoadDataset, LoadTokenizer, Tokenize, Tokenize, LoadModel, Placeholder,
      ConfigureAdapter, ApplyAdapter, Train, Evaluate, Save, Placeholder, EvaluateTuned]"
  by (simp add: sms_notebook_def)



section \<open>What each statement writes\<close>


































section \<open>The concrete runs, evaluated\<close>


lemma world_tweets_run:
  "abort_of (run_tweets world_tweets)
     = Some (Tokenize, ValueError ''Column to remove not in the dataset'')"
  by code_simp

lemma world_labelled_abort:
  "abort_of (run_tweets world_labelled) = Some (ErrorAnalysis, KeyError ''sms'')"
  by code_simp

lemma world_labelled_stages:
  "stages_done (run_tweets world_labelled) =
     [InstallDeps, LoadDataset, SplitDataset, LoadTokenizer, LoadModel, Tokenize,
      EvaluateBase, ConfigureAdapter, ApplyAdapter, ConfigureTraining, Train, Save,
      LoadAdapter, EvaluateTuned]"
  by code_simp



lemma world_sms_run:
  "abort_of (run_sms world_sms)
     = Some (ApplyAdapter, ValueError ''Please specify `target_modules` in `peft_config`'')"
  by code_simp


section \<open>C1: both notebooks abort on errors of their own making\<close>

text \<open>
  Claim C1 says that in every complete run each of the two notebooks fine-tunes the model,
  evaluates it before and after the adaptation and reports metrics, reaching all of these
  stages without aborting on an error of its own making. The code does not do that.
  With no library failing for a reason of its own:
  \<^item> the political-tweets notebook, on a table with the six columns it means to remove,
    aborts at the tokenization with \<open>ValueError\<close>, because \<open>remove_columns\<close> names one
    column \<open>index, date, id, username, text, party\<close> that the table does not have;
  \<^item> on a table that does have such a column it goes on to abort in the error analysis
    with \<open>KeyError\<close>, because the analysis reads a column \<open>sms\<close> of the tweets;
  \<^item> the SMS notebook aborts at \<open>get_peft_model\<close> with the \<open>ValueError\<close> its own output
    records, because \<open>target_modules\<close> is still None;
  \<^item> in no world does the SMS notebook run to its end, and in no world does it evaluate
    the model before the adaptation.
\<close>

theorem notebooks_abort:
  "abort_of (run_tweets world_tweets)
     = Some (Tokenize, ValueError ''Column to remove not in the dataset'')
   \<and> abort_of (run_tweets world_labelled) = Some (ErrorAnalysis, KeyError ''sms'')
   \<and> abort_of (run_sms world_sms)
     = Some (ApplyAdapter, ValueError ''Please specify `target_modules` in `peft_config`'')
   \<and> (\<forall>w tr s. run_sms w \<noteq> Completed tr s)
   \<and> (\<forall>w. EvaluateBase \<notin> set (stages_done (run_sms w)))"
proof -
  have d: "EvaluateBase \<notin> set (stages_done (run_sms w))" for w
  proof -
    have "prefix (stages_done (run_sms w)) (map fst (sms_notebook w))"
      unfolding run_sms_def by (rule stages_done_prefix)
    then have "set (stages_done (run_sms w)) \<subseteq> set (map fst (sms_notebook w))"
      by (rule set_mono_prefix)
    then show ?thesis by (auto simp: sms_stage_list)
  qed
  show ?thesis
    using world_tweets_run world_labelled_abort world_sms_run d run_sms_never_completes
    by blast
qed

section \<open>C2: exceptions propagate unhandled\<close>



section \<open>C3: tokenization is bounded, padding is per batch\<close>



section \<open>C4: the order of the stages\<close>

text \<open>
  Claim C4 says that every run performs load dataset, load tokenizer and model, configure
  adapter, train, evaluate, save in this order, that saving is the step after evaluation
  and that no evaluation precedes the adapter configuration. In the political-tweets
  notebook the baseline is evaluated before the adapter is configured, and the model is
  saved and read back before the fine-tuned model is evaluated: the run below completes
  fourteen stages in that order, an evaluation in the seventh place, the adapter
  configuration in the eighth, the save in the twelfth and the next evaluation in the
  fourteenth.
\<close>

theorem tweets_order_counterexample:
  "stages_done (run_tweets world_labelled) =
     [InstallDeps, LoadDataset, SplitDataset, LoadTokenizer, LoadModel, Tokenize,
      EvaluateBase, ConfigureAdapter, ApplyAdapter, ConfigureTraining, Train, Save,
      LoadAdapter, EvaluateTuned]
   \<and> is_evaluation (stages_done (run_tweets world_labelled) ! 6)
   \<and> stages_done (run_tweets world_labelled) ! 7 = ConfigureAdapter
   \<and> stages_done (run_tweets world_labelled) ! 11 = Save
   \<and> stages_done (run_tweets world_labelled) ! 12 = LoadAdapter
   \<and> is_evaluation (stages_done (run_tweets world_labelled) ! 13)"
  by (simp add: world_labelled_stages is_evaluation_def)

text \<open>
  Claim C4 as amended: the stages a run has completed are an initial part of the
  notebook's own order. For the political-tweets notebook that order is: install, load
  dataset, split, load tokenizer, load model, tokenize, evaluate the baseline, configure
  adapter, apply adapter, configure training, train, save, load the saved adapter,
  evaluate the fine-tuned model, error analysis. For the SMS notebook it is: install, load
  and split dataset, load tokenizer, tokenize both splits, load model, a placeholder for
  the baseline evaluation, configure adapter, apply adapter, train, evaluate, save, a
  placeholder for loading, evaluate the loaded model.
\<close>

theorem notebook_stage_order:
  "prefix (stages_done (run_tweets w))
     [InstallDeps, LoadDataset, SplitDataset, LoadTokenizer, LoadModel, Tokenize,
      EvaluateBase, ConfigureAdapter, ApplyAdapter, ConfigureTraining, Train, Save,
      LoadAdapter, EvaluateTuned, ErrorAnalysis]
   \<and> prefix (stages_done (run_sms w))
     [InstallDeps, LoadDataset, LoadTokenizer, Tokenize, Tokenize, LoadModel, Placeholder,
      ConfigureAdapter, ApplyAdapter, Train, Evaluate, Save, Placeholder, EvaluateTuned]"
  using stages_done_prefix [of "tweets_notebook w" tweets_initial]
    stages_done_prefix [of "sms_notebook w" sms_initial]
  by (simp add: run_tweets_def run_sms_def tweets_stage_list sms_stage_list)

section \<open>C5: the files a run writes\<close>




section \<open>C6: binary labels\<close>




section \<open>C8: \<open>compute_metrics\<close>\<close>

text \<open>
  Claim C8 says that for every pair of equal-length logit and label arrays
  \<open>compute_metrics\<close> returns an accuracy equal to the exact fraction of positions where
  the argmax prediction matches the label, a value in [0, 1], and macro precision, recall
  and F1 with \<open>zero_division=0\<close>, never raising. Two arrays of length 0 are of equal
  length, and on them the accuracy is the mean of an empty array: not a number.
\<close>

theorem compute_metrics_empty_counterexample:
  "compute_metrics [] [] =
     Inr \<lparr>accuracy = NaN, macro_precision = NaN, macro_recall = NaN, macro_f1 = NaN\<rparr>"
  by (simp add: compute_metrics_def precision_recall_fscore_support_def unique_labels_def
      nanaverage_def mean_bool_def)

text \<open>
  Claim C8 as amended: for every pair of equal-length, non-empty logit and label arrays,
  the logits with at least one column, \<open>compute_metrics\<close> returns without raising; its
  accuracy is the exact fraction of positions where the argmax prediction equals the
  label, and accuracy, macro precision, macro recall and macro F1 all lie in [0, 1].
\<close>

theorem compute_metrics_nonempty:
  assumes "length logits = length labels" and "labels \<noteq> []" and "\<forall>row \<in> set logits. row \<noteq> []"
  shows "\<exists>p r f.
           compute_metrics logits labels =
             Inr \<lparr>accuracy =
                    Float (rat_of_nat (card {i. i < length labels
                                               \<and> argmax (logits ! i) = Inr (nat (labels ! i))
                                               \<and> 0 \<le> labels ! i})
                           / rat_of_nat (length labels)),
                  macro_precision = Float p, macro_recall = Float r, macro_f1 = Float f\<rparr>
           \<and> 0 \<le> p \<and> p \<le> 1 \<and> 0 \<le> r \<and> r \<le> 1 \<and> 0 \<le> f \<and> f \<le> 1
           \<and> card {i. i < length labels \<and> argmax (logits ! i) = Inr (nat (labels ! i))
                                               \<and> 0 \<le> labels ! i} \<le> length labels"
proof -
  from argmax_axis1_Inr [OF assms(3)] obtain am where
    am: "argmax_axis1 logits = Inr am" "length am = length logits"
        "\<forall>i < length logits. argmax (logits ! i) = Inr (am ! i)"
    by blast
  let ?preds = "map int am"
  have len: "length ?preds = length labels" using am(2) assms(1) by simp
  from prfs_unit [of labels "map int am"] len assms(2) obtain p r f where
    mac: "precision_recall_fscore_support labels ?preds = Inr (Float p, Float r, Float f)"
      "0 \<le> p" "p \<le> 1" "0 \<le> r" "r \<le> 1" "0 \<le> f" "f \<le> 1"
    by auto
  let ?M = "{i. i < length labels \<and> argmax (logits ! i) = Inr (nat (labels ! i)) \<and> 0 \<le> labels ! i}"
  have "{i. i < length labels \<and> ?preds ! i = labels ! i} = ?M"
    using am(2,3) assms(1) by auto
  then have cnt: "length (filter id (map2 (=) ?preds labels)) = card ?M"
    using matches_card [OF len] by simp
  have ne: "map2 (=) ?preds labels \<noteq> []" using len assms(2) by (cases am; cases labels) auto
  have acc: "mean_bool (map2 (=) ?preds labels)
      = Float (rat_of_nat (card ?M) / rat_of_nat (length labels))"
    using ne cnt len by (simp add: mean_bool_def)
  have "?M \<subseteq> {..<length labels}" by auto
  then have "card ?M \<le> card {..<length labels}" by (intro card_mono) auto
  then have le: "card ?M \<le> length labels" by simp
  have "compute_metrics logits labels =
      Inr \<lparr>accuracy = Float (rat_of_nat (card ?M) / rat_of_nat (length labels)),
           macro_precision = Float p, macro_recall = Float r, macro_f1 = Float f\<rparr>"
    using am(1) mac(1) acc by (simp add: compute_metrics_def)
  with mac le show ?thesis by blast
qed

text \<open>
  The theorem on two examples with label 1, one predicted as class 0: class 0 is absent
  from the labels, so its recall has the denominator 0 and counts as 0.
\<close>

theorem compute_metrics_nonempty_witness:
  "length [[0, 1], [1, 0 :: rat]] = length [1, 1 :: int]
   \<and> [1, 1 :: int] \<noteq> []
   \<and> list_all (\<lambda>row. row \<noteq> []) [[0, 1], [1, 0 :: rat]]
   \<and> compute_metrics [[0, 1], [1, 0]] [1, 1]
       = Inr \<lparr>accuracy = Float (1 / 2), macro_precision = Float (1 / 2),
              macro_recall = Float (1 / 4), macro_f1 = Float (1 / 3)\<rparr>
   \<and> (\<exists>p r f.
         compute_metrics [[0, 1], [1, 0]] [1, 1] =
           Inr \<lparr>accuracy =
                  Float (rat_of_nat (card {i. i < length [1, 1 :: int]
                                             \<and> argmax ([[0, 1], [1, 0]] ! i)
                                                 = Inr (nat ([1, 1] ! i))
                                             \<and> 0 \<le> [1, 1 :: int] ! i})
                         / rat_of_nat (length [1, 1 :: int])),
                macro_precision = Float p, macro_recall = Float r, macro_f1 = Float f\<rparr>
         \<and> 0 \<le> p \<and> p \<le> 1 \<and> 0 \<le> r \<and> r \<le> 1 \<and> 0 \<le> f \<and> f \<le> 1)"
proof -
  have h1: "length [[0, 1], [1, 0 :: rat]] = length [1, 1 :: int]" by simp
  have h2: "[1, 1 :: int] \<noteq> []" by simp
  have h3: "\<forall>row \<in> set [[0, 1], [1, 0 :: rat]]. row \<noteq> []" by simp
  have v: "compute_metrics [[0, 1], [1, 0]] [1, 1]
       = Inr \<lparr>accuracy = Float (1 / 2), macro_precision = Float (1 / 2),
              macro_recall = Float (1 / 4), macro_f1 = Float (1 / 3)\<rparr>"
    by code_simp
  from compute_metrics_nonempty [OF h1 h2 h3] have "\<exists>p r f.
         compute_metrics [[0, 1], [1, 0]] [1, 1] =
           Inr \<lparr>accuracy =
                  Float (rat_of_nat (card {i. i < length [1, 1 :: int]
                                             \<and> argmax ([[0, 1], [1, 0]] ! i)
                                                 = Inr (nat ([1, 1] ! i))
                                             \<and> 0 \<le> [1, 1 :: int] ! i})
                         / rat_of_nat (length [1, 1 :: int])),
                macro_precision = Float p, macro_recall = Float r, macro_f1 = Float f\<rparr>
         \<and> 0 \<le> p \<and> p \<le> 1 \<and> 0 \<le> r \<and> r \<le> 1 \<and> 0 \<le> f \<and> f \<le> 1"
    by blast
  with h1 h2 v show ?thesis by simp
qed

section \<open>C9: the split is seeded\<close>

text \<open>
  Claim C9 says that the train/test split is deterministic, each script splitting with a
  hard-coded seed (42 and 23) and \<open>test_size=0.2\<close>, so that two runs over the same
  dataset produce identical splits, with the test split holding 20% of the records. The
  test split holds \<open>ceil(0.2 * n)\<close> records: 2 of 6 here, and 1115 of the 5574 records
  of which the SMS notebook's own output shows the 4459 training rows; neither is 20%.
\<close>

theorem split_sizes_counterexample:
  "map_sum id (\<lambda>dd. (length (rows (train dd)), length (rows (test dd))))
     (train_test_split example_generator (1 / 5) (Some 23) short_table) = Inr (4, 2)
   \<and> 5 * 2 \<noteq> length (rows short_table)
   \<and> n_test_of (1 / 5) 5574 = 1115 \<and> 5574 - n_test_of (1 / 5) 5574 = 4459
   \<and> 5 * 1115 \<noteq> (5574 :: nat)"
proof -
  have a: "map_sum id (\<lambda>dd. (length (rows (train dd)), length (rows (test dd))))
     (train_test_split example_generator (1 / 5) (Some 23) short_table) = Inr (4, 2)"
    by code_simp
  have b: "length (rows short_table) = 6" by (simp add: short_table_def)
  have c: "n_test_of (1 / 5) 5574 = 1115" by (simp add: n_test_fifth)
  show ?thesis using a b c by simp
qed

text \<open>
  Claim C9 as amended: the split is deterministic: with the seed given, the result of
  \<open>train_test_split\<close>, and of the statement of either notebook that calls it with seed
  42 or 23, does not depend on the entropy of the operating system, so two runs over the
  same dataset produce identical splits. For a dataset of \<open>n \<ge> 2\<close> records and a
  generator that returns permutations, the test split holds \<open>ceil(n / 5)\<close> records, that
  is 20% rounded up to a whole record, and the train split holds the rest.
\<close>

theorem split_is_seeded:
  "train_test_split (g\<lparr>entropy := ea\<rparr>) (1 / 5) (Some seed) ds
     = train_test_split (g\<lparr>entropy := eb\<rparr>) (1 / 5) (Some seed) ds
   \<and> tweets_split (w\<lparr>rng := (rng w)\<lparr>entropy := ea\<rparr>\<rparr>) s
     = tweets_split (w\<lparr>rng := (rng w)\<lparr>entropy := eb\<rparr>\<rparr>) s
   \<and> sms_load_dataset (w\<lparr>rng := (rng w)\<lparr>entropy := ea\<rparr>\<rparr>) s'
     = sms_load_dataset (w\<lparr>rng := (rng w)\<lparr>entropy := eb\<rparr>\<rparr>) s'
   \<and> (set (permutation g seed (length (rows ds))) = {..<length (rows ds)}
        \<and> length (permutation g seed (length (rows ds))) = length (rows ds)
        \<and> 2 \<le> length (rows ds) \<longrightarrow>
        (\<exists>dd. train_test_split g (1 / 5) (Some seed) ds = Inr dd
           \<and> length (rows (test dd)) = (length (rows ds) + 4) div 5
           \<and> length (rows (train dd)) = length (rows ds) - (length (rows ds) + 4) div 5
           \<and> length (rows ds) \<le> 5 * length (rows (test dd))
           \<and> 5 * length (rows (test dd)) < length (rows ds) + 5))"
proof (intro conjI impI)
  show "train_test_split (g\<lparr>entropy := ea\<rparr>) (1 / 5) (Some seed) ds
     = train_test_split (g\<lparr>entropy := eb\<rparr>) (1 / 5) (Some seed) ds"
    by (simp add: train_test_split_seeded)
  show "tweets_split (w\<lparr>rng := (rng w)\<lparr>entropy := ea\<rparr>\<rparr>) s
     = tweets_split (w\<lparr>rng := (rng w)\<lparr>entropy := eb\<rparr>\<rparr>) s"
    by (simp add: tweets_split_def external_def train_test_split_seeded)
  show "sms_load_dataset (w\<lparr>rng := (rng w)\<lparr>entropy := ea\<rparr>\<rparr>) s'
     = sms_load_dataset (w\<lparr>rng := (rng w)\<lparr>entropy := eb\<rparr>\<rparr>) s'"
    by (simp add: sms_load_dataset_def external_def train_test_split_seeded
        cong: option.case_cong sum.case_cong)
next
  let ?n = "length (rows ds)"
  let ?t = "(?n + 4) div 5"
  let ?perm = "permutation g seed ?n"
  assume h: "set ?perm = {..<?n} \<and> length ?perm = ?n \<and> 2 \<le> ?n"
  have "2 \<le> ?n" using h by simp
  then have tn: "?t < ?n" by presburger
  have sub1: "set (take ?t ?perm) \<subseteq> {..<?n}" using h by (auto dest: in_set_takeD)
  have sub2: "set (take (?n - ?t) (drop ?t ?perm)) \<subseteq> {..<?n}"
    using h by (auto dest!: in_set_takeD in_set_dropD)
  let ?dd = "\<lparr>train = select ds (take (?n - ?t) (drop ?t ?perm)), test = select ds (take ?t ?perm)\<rparr>"
  have r: "train_test_split g (1 / 5) (Some seed) ds = Inr ?dd"
    using tn by (simp add: train_test_split_def n_test_fifth Let_def)
  have lt: "length (rows (test ?dd)) = ?t"
    using select_length [OF sub1] h tn by simp
  have ltr: "length (rows (train ?dd)) = ?n - ?t"
    using select_length [OF sub2] h tn by simp
  have b1: "?n \<le> 5 * ?t" by presburger
  have b2: "5 * ?t < ?n + 5" by presburger
  show "\<exists>dd. train_test_split g (1 / 5) (Some seed) ds = Inr dd
           \<and> length (rows (test dd)) = ?t
           \<and> length (rows (train dd)) = ?n - ?t
           \<and> ?n \<le> 5 * length (rows (test dd))
           \<and> 5 * length (rows (test dd)) < ?n + 5"
    using r lt ltr b1 b2 by (intro exI [of _ ?dd]) simp
qed

text \<open>The theorem at the six messages and the generator that reverses the order.\<close>

theorem split_is_seeded_witness:
  "set (permutation example_generator 23 (length (rows short_table)))
     = {..<length (rows short_table)}
   \<and> length (permutation example_generator 23 (length (rows short_table)))
     = length (rows short_table)
   \<and> 2 \<le> length (rows short_table)
   \<and> (\<exists>dd. train_test_split example_generator (1 / 5) (Some 23) short_table = Inr dd
         \<and> length (rows (test dd)) = 2 \<and> length (rows (train dd)) = 4)
   \<and> train_test_split (example_generator\<lparr>entropy := 1\<rparr>) (1 / 5) (Some 23) short_table
     = train_test_split (example_generator\<lparr>entropy := 2\<rparr>) (1 / 5) (Some 23) short_table"
proof -
  have n: "length (rows short_table) = 6" by (simp add: short_table_def)
  have p: "permutation example_generator 23 6 = rev [0..<6]"
    by (simp add: example_generator_def)
  have h: "set (permutation example_generator 23 (length (rows short_table)))
        = {..<length (rows short_table)}
      \<and> length (permutation example_generator 23 (length (rows short_table)))
        = length (rows short_table)
      \<and> 2 \<le> length (rows short_table)"
    unfolding n p by (simp add: atLeast0LessThan [symmetric] del: upt_Suc)
  note inst = split_is_seeded [where g = example_generator and ea = 1 and eb = 2 and seed = 23
      and ds = short_table]
  from conjunct2 [OF conjunct2 [OF conjunct2 [OF inst]]] h
  obtain dd where dd: "train_test_split example_generator (1 / 5) (Some 23) short_table = Inr dd"
    "length (rows (test dd)) = (length (rows short_table) + 4) div 5"
    "length (rows (train dd)) = length (rows short_table) - (length (rows short_table) + 4) div 5"
    by blast
  have "length (rows (test dd)) = 2" "length (rows (train dd)) = 4"
    using dd(2,3) by (simp_all add: n)
  with dd(1)
  have "\<exists>dd. train_test_split example_generator (1 / 5) (Some 23) short_table = Inr dd
         \<and> length (rows (test dd)) = 2 \<and> length (rows (train dd)) = 4"
    by blast
  with h conjunct1 [OF inst] show ?thesis by blast
qed

section \<open>C10: every predicted class is a key of \<open>id2label\<close>\<close>

text \<open>
  Claim C10: every predicted class produced during evaluation in the political-tweets
  notebook is 0 or 1: predictions are the argmax over axis 1 of a logits array with
  exactly two columns (\<open>num_labels=2\<close>), so each predicted index is a valid key of the
  model's \<open>id2label\<close> wherever that mapping is consulted. For a model with the notebook's
  configuration whose logits have \<open>num_labels\<close> columns, the argmax of the evaluation
  succeeds, gives one class per example, each 0 or 1 and each found in \<open>id2label\<close>, and
  these are the predictions \<open>evaluate_model\<close> reports.
\<close>

theorem predictions_are_id2label_keys:
  assumes "config m = tweets_base_config"
    and "\<forall>rw \<in> set (rows ds). length (forward m rw) = num_labels (config m)"
  shows "\<exists>am. argmax_axis1 (predictions (trainer_predict m ds)) = Inr am
           \<and> length am = length (rows ds)
           \<and> (\<forall>p \<in> set am. (p = 0 \<or> p = 1)
                 \<and> (\<exists>name. id2label_item (config m) (int p) = Inr name))
           \<and> (\<forall>ev. evaluate_model m ds = Inr ev \<longrightarrow> eval_predictions ev = map int am)"
proof -
  have two: "\<forall>row \<in> set (predictions (trainer_predict m ds)). length row = 2"
    using assms by (auto simp: trainer_predict_def tweets_base_config_def)
  from argmax_axis1_bound [OF two] obtain am where
    am: "argmax_axis1 (predictions (trainer_predict m ds)) = Inr am"
        "length am = length (predictions (trainer_predict m ds))" "\<forall>p \<in> set am. p < 2"
    by auto
  have keys: "(p = 0 \<or> p = 1) \<and> (\<exists>name. id2label_item (config m) (int p) = Inr name)"
    if "p \<in> set am" for p
  proof -
    from that am(3) have "p = 0 \<or> p = 1" by fastforce
    then show ?thesis
      using assms(1) by (auto simp: id2label_item_def tweets_base_config_def)
  qed
  have ev: "\<forall>ev. evaluate_model m ds = Inr ev \<longrightarrow> eval_predictions ev = map int am"
    using am(1) by (auto simp: evaluate_model_def Let_def split: option.splits sum.splits)
  have "length am = length (rows ds)" using am(2) by (simp add: trainer_predict_def)
  with am(1) keys ev show ?thesis by blast
qed

text \<open>The theorem at the example model on the ten labelled texts.\<close>

theorem predictions_are_id2label_keys_witness:
  "config example_model = tweets_base_config
   \<and> list_all (\<lambda>rw. length (forward example_model rw) = num_labels (config example_model))
        (rows labelled_table)
   \<and> (\<exists>am. argmax_axis1 (predictions (trainer_predict example_model labelled_table)) = Inr am
           \<and> length am = length (rows labelled_table)
           \<and> (\<forall>p \<in> set am. (p = 0 \<or> p = 1)
                 \<and> (\<exists>name. id2label_item (config example_model) (int p) = Inr name))
           \<and> (\<forall>ev. evaluate_model example_model labelled_table = Inr ev
                 \<longrightarrow> eval_predictions ev = map int am))
   \<and> argmax_axis1 (predictions (trainer_predict example_model labelled_table))
       = Inr [0, 0, 0, 0, 0, 0, 0, 0, 0, 0]"
proof -
  have c: "config example_model = tweets_base_config" by (simp add: example_model_def)
  have f: "\<forall>rw \<in> set (rows labelled_table).
         length (forward example_model rw) = num_labels (config example_model)"
    by (simp add: example_model_def tweets_base_config_def)
  have f': "list_all (\<lambda>rw. length (forward example_model rw) = num_labels (config example_model))
        (rows labelled_table)"
    using f by (simp add: list_all_iff)
  have v: "argmax_axis1 (predictions (trainer_predict example_model labelled_table))
       = Inr [0, 0, 0, 0, 0, 0, 0, 0, 0, 0]"
    by code_simp
  show ?thesis using c f' v predictions_are_id2label_keys [OF c f] by blast
qed

end
